theory Spec2Isabelle
  imports Complex_Main "HOL-Library.AList" "HOL-Library.Sublist" "HOL-Library.Multiset"
begin

section \<open>Lifecycle state machine (src/lifecycle/LifecycleManager.ts)\<close>

subsection \<open>Data\<close>

text \<open>
  \<^verbatim>\<open>AgentState\<close> is the string enum of interfaces/types; its values are the channel
  names used by \<^verbatim>\<open>emit(transition.to, ...)\<close>.
\<close>

datatype AgentState =
  CREATED | INITIALIZING | RUNNING | SUSPENDED | TERMINATING | TERMINATED | ERROR

fun state_name :: "AgentState \<Rightarrow> string" where
  "state_name CREATED = ''created''"
| "state_name INITIALIZING = ''initializing''"
| "state_name RUNNING = ''running''"
| "state_name SUSPENDED = ''suspended''"
| "state_name TERMINATING = ''terminating''"
| "state_name TERMINATED = ''terminated''"
| "state_name ERROR = ''error''"

text \<open>
  A metadata value (\<^verbatim>\<open>Record<string, unknown>\<close>): the kinds of value the manager itself
  stores. Dates and numbers are milliseconds, as integers.
\<close>

datatype mvalue = MBool bool | MNum int | MStr string

type_synonym metadata_t = "(string \<times> mvalue) list"

record StateTransition =
  t_from :: AgentState
  t_to :: AgentState
  timestamp :: int
  reason :: "string option"
  metadata :: "metadata_t option"

record LifecyclePolicy =
  maxRetries :: nat
  retryDelayMs :: int
  timeoutMs :: int
  checkpointInterval :: int
  autoRestart :: bool
  gracefulShutdownMs :: int

record PartialPolicy =
  p_maxRetries :: "nat option"
  p_retryDelayMs :: "int option"
  p_timeoutMs :: "int option"
  p_checkpointInterval :: "int option"
  p_autoRestart :: "bool option"
  p_gracefulShutdownMs :: "int option"

text \<open>Notifications, with the channel each is emitted on.\<close>

datatype lc_event =
  TransitionError AgentState AgentState
| StateChanged AgentState AgentState StateTransition
| StateEntered AgentState StateTransition
| TerminatedEv StateTransition
| CheckpointEv StateTransition
| RestoredEv StateTransition
| PolicyUpdated LifecyclePolicy

fun channel_of :: "lc_event \<Rightarrow> string" where
  "channel_of (TransitionError a b) = ''transitionError''"
| "channel_of (StateChanged a b t) = ''stateChanged''"
| "channel_of (StateEntered a t) = state_name a"
| "channel_of (TerminatedEv t) = ''terminated''"
| "channel_of (CheckpointEv t) = ''checkpoint''"
| "channel_of (RestoredEv t) = ''restored''"
| "channel_of (PolicyUpdated p) = ''policyUpdated''"

datatype lc_error = ListenerThrew | NoCheckpoint

text \<open>
  The manager's fields. \<open>emitted\<close> is the trace of \<^verbatim>\<open>emit\<close> calls, \<open>retryTimers\<close> the
  delays of the retry callbacks scheduled by \<^verbatim>\<open>handleError\<close>, \<open>forceTimers\<close> those of
  the forced-termination callbacks of \<^verbatim>\<open>gracefulShutdown\<close>. The manager is an
  EventEmitter: \<open>throwing c\<close> says that a subscriber of channel \<open>c\<close> throws when it is
  called, which makes \<^verbatim>\<open>emit\<close> throw (delivery is synchronous).
\<close>

record lifecycle =
  currentState :: AgentState
  stateHistory :: "StateTransition list"
  policy :: LifecyclePolicy
  retryCount :: nat
  checkpointTimer :: bool
  agentId :: string
  emitted :: "lc_event list"
  retryTimers :: "int list"
  forceTimers :: "int list"
  throwing :: "string \<Rightarrow> bool"

record statistics =
  st_currentState :: AgentState
  st_uptime :: int
  st_timeInCurrentState :: int
  st_stateChanges :: nat
  st_errorCount :: nat
  st_retryCount :: nat
  st_checkpointCount :: nat
  st_stateDurations :: "(AgentState \<times> int) list"

subsection \<open>Operations\<close>

fun VALID_TRANSITIONS :: "AgentState \<Rightarrow> AgentState list" where
  "VALID_TRANSITIONS CREATED = [INITIALIZING, ERROR]"
| "VALID_TRANSITIONS INITIALIZING = [RUNNING, ERROR, TERMINATED]"
| "VALID_TRANSITIONS RUNNING = [SUSPENDED, TERMINATING, ERROR]"
| "VALID_TRANSITIONS SUSPENDED = [RUNNING, TERMINATING, ERROR]"
| "VALID_TRANSITIONS TERMINATING = [TERMINATED, ERROR]"
| "VALID_TRANSITIONS TERMINATED = []"
| "VALID_TRANSITIONS ERROR = [INITIALIZING, TERMINATING, TERMINATED]"

definition default_policy :: LifecyclePolicy where
  "default_policy =
     \<lparr>maxRetries = 3, retryDelayMs = 1000, timeoutMs = 30000, checkpointInterval = 60000,
      autoRestart = False, gracefulShutdownMs = 5000\<rparr>"

definition or_else :: "'a option \<Rightarrow> 'a \<Rightarrow> 'a" where
  "or_else v d = (case v of None \<Rightarrow> d | Some x \<Rightarrow> x)"

text \<open>The object spread \<^verbatim>\<open>{ ...base, ...partial }\<close>.\<close>

definition merge_policy :: "LifecyclePolicy \<Rightarrow> PartialPolicy \<Rightarrow> LifecyclePolicy" where
  "merge_policy b p =
     \<lparr>maxRetries = or_else (p_maxRetries p) (maxRetries b),
      retryDelayMs = or_else (p_retryDelayMs p) (retryDelayMs b),
      timeoutMs = or_else (p_timeoutMs p) (timeoutMs b),
      checkpointInterval = or_else (p_checkpointInterval p) (checkpointInterval b),
      autoRestart = or_else (p_autoRestart p) (autoRestart b),
      gracefulShutdownMs = or_else (p_gracefulShutdownMs p) (gracefulShutdownMs b)\<rparr>"

definition startCheckpointing :: "lifecycle \<Rightarrow> lifecycle" where
  "startCheckpointing s =
     (if checkpointInterval (policy s) > 0 then s\<lparr>checkpointTimer := True\<rparr> else s)"

definition stopCheckpointing :: "lifecycle \<Rightarrow> lifecycle" where
  "stopCheckpointing s = (if checkpointTimer s then s\<lparr>checkpointTimer := False\<rparr> else s)"

text \<open>The constructor; \<open>subs\<close> is the behaviour of the subscribers attached to the instance.\<close>

definition new_manager :: "string \<Rightarrow> PartialPolicy \<Rightarrow> (string \<Rightarrow> bool) \<Rightarrow> lifecycle" where
  "new_manager aid pol subs =
     startCheckpointing
       \<lparr>currentState = CREATED, stateHistory = [], policy = merge_policy default_policy pol,
        retryCount = 0, checkpointTimer = False, agentId = aid, emitted = [],
        retryTimers = [], forceTimers = [], throwing = subs\<rparr>"

definition no_policy :: PartialPolicy where
  "no_policy =
     \<lparr>p_maxRetries = None, p_retryDelayMs = None, p_timeoutMs = None,
      p_checkpointInterval = None, p_autoRestart = None, p_gracefulShutdownMs = None\<rparr>"

definition quiet :: "string \<Rightarrow> bool" where
  "quiet c = False"

definition getCurrentState :: "lifecycle \<Rightarrow> AgentState" where
  "getCurrentState s = currentState s"

definition getStateHistory :: "lifecycle \<Rightarrow> StateTransition list" where
  "getStateHistory s = stateHistory s"

text \<open>
  \<^verbatim>\<open>emit\<close>: the call is recorded; it throws when a subscriber of the channel does.
\<close>

definition emit :: "lc_event \<Rightarrow> lifecycle \<Rightarrow> (lc_error + unit) \<times> lifecycle" where
  "emit ev s =
     (if throwing s (channel_of ev) then Inl ListenerThrew else Inr (),
      s\<lparr>emitted := emitted s @ [ev]\<rparr>)"

definition updatePolicy :: "PartialPolicy \<Rightarrow> lifecycle \<Rightarrow> (lc_error + unit) \<times> lifecycle" where
  "updatePolicy np s =
     (let s1 = s\<lparr>policy := merge_policy (policy s) np\<rparr>
      in emit (PolicyUpdated (policy s1)) s1)"

definition canTransitionTo :: "lifecycle \<Rightarrow> AgentState \<Rightarrow> bool" where
  "canTransitionTo s newState = (newState \<in> set (VALID_TRANSITIONS (currentState s)))"

text \<open>
  \<^verbatim>\<open>executeTransition\<close>: the state and the history are written first, then the
  notifications go out; a throwing subscriber ends the call there.
\<close>

definition executeTransition ::
  "StateTransition \<Rightarrow> lifecycle \<Rightarrow> (lc_error + unit) \<times> lifecycle" where
  "executeTransition transition s =
     (let oldState = currentState s;
          s1 = s\<lparr>currentState := t_to transition,
                 stateHistory := stateHistory s @ [transition]\<rparr>;
          s2 = (if t_to transition = RUNNING then s1\<lparr>retryCount := 0\<rparr> else s1)
      in case emit (StateChanged (t_to transition) oldState transition) s2 of
           (Inl e, s3) \<Rightarrow> (Inl e, s3)
         | (Inr u, s3) \<Rightarrow>
             (case emit (StateEntered (t_to transition) transition) s3 of
                (Inl e, s4) \<Rightarrow> (Inl e, s4)
              | (Inr u, s4) \<Rightarrow>
                  (if t_to transition = TERMINATED
                   then emit (TerminatedEv transition) (stopCheckpointing s4)
                   else (Inr (), s4))))"

text \<open>
  \<^verbatim>\<open>transitionTo\<close>: \<open>Inr b\<close> is the promise resolving to \<open>b\<close>, \<open>Inl e\<close> its rejection
  (a subscriber of \<^verbatim>\<open>transitionError\<close> threw). \<open>now\<close> is the clock read by \<^verbatim>\<open>new Date()\<close>.
\<close>

definition transitionTo ::
  "AgentState \<Rightarrow> string option \<Rightarrow> metadata_t option \<Rightarrow> int \<Rightarrow> lifecycle
     \<Rightarrow> (lc_error + bool) \<times> lifecycle" where
  "transitionTo newState rsn md now s =
     (if \<not> canTransitionTo s newState then
        (case emit (TransitionError (currentState s) newState) s of
           (Inl e, s1) \<Rightarrow> (Inl e, s1)
         | (Inr u, s1) \<Rightarrow> (Inr False, s1))
      else
        (let transition = \<lparr>t_from = currentState s, t_to = newState, timestamp = now,
                            reason = rsn, metadata = md\<rparr>
         in case executeTransition transition s of
              (Inr u, s1) \<Rightarrow> (Inr True, s1)
            | (Inl err, s1) \<Rightarrow>
                (case emit (TransitionError (t_from transition) (t_to transition)) s1 of
                   (Inl e, s2) \<Rightarrow> (Inl e, s2)
                 | (Inr u, s2) \<Rightarrow> (Inr False, s2))))"

definition forceTransitionTo ::
  "AgentState \<Rightarrow> string \<Rightarrow> metadata_t option \<Rightarrow> int \<Rightarrow> lifecycle
     \<Rightarrow> (lc_error + unit) \<times> lifecycle" where
  "forceTransitionTo newState rsn md now s =
     executeTransition
       \<lparr>t_from = currentState s, t_to = newState, timestamp = now,
        reason = Some (''FORCED: '' @ rsn),
        metadata = Some (AList.update ''forced'' (MBool True) (or_else md []))\<rparr> s"

definition error_metadata :: "string \<Rightarrow> nat \<Rightarrow> bool \<Rightarrow> metadata_t" where
  "error_metadata msg rc w =
     [(''error'', MStr msg), (''retryCount'', MNum (int rc)), (''willRetry'', MBool w)]"

text \<open>
  \<^verbatim>\<open>handleError\<close>: the retry callback (\<^verbatim>\<open>transitionTo(INITIALIZING, 'Retry after error')\<close>)
  is recorded with its delay; when it fires it is a \<open>transitionTo\<close> of its own.
\<close>

definition handleError :: "string \<Rightarrow> int \<Rightarrow> lifecycle \<Rightarrow> (lc_error + unit) \<times> lifecycle" where
  "handleError msg now s =
     (let s1 = s\<lparr>retryCount := retryCount s + 1\<rparr>;
          shouldRetry = (retryCount s1 \<le> maxRetries (policy s1) \<and> autoRestart (policy s1)
                         \<and> currentState s1 \<noteq> TERMINATED)
      in if shouldRetry then
           (case transitionTo ERROR (Some (''Error occurred: '' @ msg))
                   (Some (error_metadata msg (retryCount s1) True)) now s1 of
              (Inl e, s2) \<Rightarrow> (Inl e, s2)
            | (Inr b, s2) \<Rightarrow>
                (Inr (), s2\<lparr>retryTimers := retryTimers s2 @
                     [retryDelayMs (policy s2) * 2 ^ (retryCount s2 - 1)]\<rparr>))
         else
           (case transitionTo ERROR (Some (''Max retries exceeded: '' @ msg))
                   (Some (error_metadata msg (retryCount s1) False)) now s1 of
              (Inl e, s2) \<Rightarrow> (Inl e, s2)
            | (Inr b, s2) \<Rightarrow> (Inr (), s2)))"

text \<open>
  \<^verbatim>\<open>gracefulShutdown\<close> up to its first suspension: the forced-termination callback is
  recorded with its delay; when it fires it is
  \<^verbatim>\<open>forceTransitionTo(TERMINATED, 'Forceful termination after graceful shutdown timeout')\<close>.
\<close>

text \<open>\<^verbatim>\<open>reason || 'Graceful shutdown requested'\<close>: an empty string is falsy as well.\<close>

definition or_default :: "string option \<Rightarrow> string \<Rightarrow> string" where
  "or_default v d = (case v of None \<Rightarrow> d | Some x \<Rightarrow> if x = [] then d else x)"

definition gracefulShutdown ::
  "string option \<Rightarrow> int \<Rightarrow> lifecycle \<Rightarrow> (lc_error + unit) \<times> lifecycle" where
  "gracefulShutdown rsn now s =
     (if currentState s = TERMINATED \<or> currentState s = TERMINATING then (Inr (), s)
      else
        (case transitionTo TERMINATING (Some (or_default rsn ''Graceful shutdown requested''))
                None now s of
           (Inl e, s1) \<Rightarrow> (Inl e, s1)
         | (Inr b, s1) \<Rightarrow>
             (Inr (), s1\<lparr>forceTimers := forceTimers s1 @ [gracefulShutdownMs (policy s1)]\<rparr>)))"

definition getUptime :: "int \<Rightarrow> lifecycle \<Rightarrow> int" where
  "getUptime now s =
     (case find (\<lambda>t. t_to t = CREATED) (stateHistory s) of
        None \<Rightarrow> 0
      | Some createdTransition \<Rightarrow> now - timestamp createdTransition)"

definition getTimeInCurrentState :: "int \<Rightarrow> lifecycle \<Rightarrow> int" where
  "getTimeInCurrentState now s =
     (case stateHistory s of
        [] \<Rightarrow> 0
      | h # hs \<Rightarrow> now - timestamp (last (h # hs)))"

definition createCheckpoint ::
  "int \<Rightarrow> lifecycle \<Rightarrow> (lc_error + StateTransition) \<times> lifecycle" where
  "createCheckpoint now s =
     (let checkpoint =
            \<lparr>t_from = currentState s, t_to = currentState s, timestamp = now,
             reason = Some ''Checkpoint'',
             metadata = Some [(''checkpoint'', MBool True),
                              (''retryCount'', MNum (int (retryCount s))),
                              (''uptime'', MNum (getUptime now s))]\<rparr>;
          s1 = s\<lparr>stateHistory := stateHistory s @ [checkpoint]\<rparr>
      in case emit (CheckpointEv checkpoint) s1 of
           (Inl e, s2) \<Rightarrow> (Inl e, s2)
         | (Inr u, s2) \<Rightarrow> (Inr checkpoint, s2))"

text \<open>The callback of the checkpoint interval.\<close>

definition checkpointTick :: "int \<Rightarrow> lifecycle \<Rightarrow> (lc_error + unit) \<times> lifecycle" where
  "checkpointTick now s =
     (if checkpointTimer s \<and> currentState s = RUNNING then
        (case createCheckpoint now s of
           (Inl e, s1) \<Rightarrow> (Inl e, s1)
         | (Inr c, s1) \<Rightarrow> (Inr (), s1))
      else (Inr (), s))"

text \<open>\<^verbatim>\<open>t.metadata?.checkpoint === true\<close> and the truthiness test of \<^verbatim>\<open>getStatistics\<close>.\<close>

definition is_checkpoint :: "StateTransition \<Rightarrow> bool" where
  "is_checkpoint t =
     (case metadata t of None \<Rightarrow> False | Some m \<Rightarrow> map_of m ''checkpoint'' = Some (MBool True))"

fun truthy :: "mvalue \<Rightarrow> bool" where
  "truthy (MBool b) = b"
| "truthy (MNum n) = (n \<noteq> 0)"
| "truthy (MStr x) = (x \<noteq> [])"

definition checkpoint_truthy :: "StateTransition \<Rightarrow> bool" where
  "checkpoint_truthy t =
     (case metadata t of
        None \<Rightarrow> False
      | Some m \<Rightarrow> (case map_of m ''checkpoint'' of None \<Rightarrow> False | Some v \<Rightarrow> truthy v))"

text \<open>
  \<^verbatim>\<open>getLastCheckpoint\<close>: \<^verbatim>\<open>Array.prototype.reverse\<close> reverses \<^verbatim>\<open>this.stateHistory\<close> in
  place and returns it, so the call also writes the field.
\<close>

definition getLastCheckpoint :: "lifecycle \<Rightarrow> StateTransition option \<times> lifecycle" where
  "getLastCheckpoint s =
     (let reversed = rev (stateHistory s)
      in (find is_checkpoint reversed, s\<lparr>stateHistory := reversed\<rparr>))"

definition restoreFromCheckpoint ::
  "StateTransition option \<Rightarrow> int \<Rightarrow> lifecycle \<Rightarrow> (lc_error + unit) \<times> lifecycle" where
  "restoreFromCheckpoint checkpoint now s =
     (let (targetCheckpoint, s1) =
            (case checkpoint of Some c \<Rightarrow> (Some c, s) | None \<Rightarrow> getLastCheckpoint s)
      in case targetCheckpoint of
           None \<Rightarrow> (Inl NoCheckpoint, s1)
         | Some target \<Rightarrow>
             (case forceTransitionTo (t_to target) ''Restored from checkpoint''
                     (Some [(''restoredFrom'', MNum (timestamp target))]) now s1 of
                (Inl e, s2) \<Rightarrow> (Inl e, s2)
              | (Inr u, s2) \<Rightarrow> emit (RestoredEv target) s2))"

text \<open>
  The loop of \<^verbatim>\<open>getStatistics\<close> over consecutive entries, \<open>acc\<close> being the
  \<^verbatim>\<open>stateDurations\<close> map.
\<close>

fun stateDurations :: "StateTransition list \<Rightarrow> (AgentState \<times> int) list \<Rightarrow> (AgentState \<times> int) list" where
  "stateDurations (current # next # rest) acc =
     stateDurations (next # rest)
       (AList.update (t_to current)
          (or_else (map_of acc (t_to current)) 0 + (timestamp next - timestamp current)) acc)"
| "stateDurations rest acc = acc"

definition getStatistics :: "int \<Rightarrow> lifecycle \<Rightarrow> statistics" where
  "getStatistics now s =
     \<lparr>st_currentState = currentState s,
      st_uptime = getUptime now s,
      st_timeInCurrentState = getTimeInCurrentState now s,
      st_stateChanges = length (stateHistory s),
      st_errorCount = length (filter (\<lambda>t. t_to t = ERROR) (stateHistory s)),
      st_retryCount = retryCount s,
      st_checkpointCount = length (filter checkpoint_truthy (stateHistory s)),
      st_stateDurations = stateDurations (stateHistory s) []\<rparr>"

definition destroy :: "lifecycle \<Rightarrow> lifecycle" where
  "destroy s = (stopCheckpointing s)\<lparr>throwing := (\<lambda>c. False)\<rparr>"

subsection \<open>Runs\<close>

text \<open>
  A run of a manager is a sequence of calls, each with the time at which it is made. Timer
  callbacks appear in a run as the calls they make: the retry callback as
  \<open>OpTransitionTo INITIALIZING\<close>, the forced termination as \<open>OpForceTransitionTo TERMINATED\<close>,
  the checkpoint interval as \<open>OpCheckpointTick\<close>. A call that throws leaves the manager as
  it was at the throw; the run goes on with the next call.
\<close>

datatype lc_op =
  OpTransitionTo AgentState "string option" "metadata_t option"
| OpForceTransitionTo AgentState string "metadata_t option"
| OpHandleError string
| OpGracefulShutdown "string option"
| OpCreateCheckpoint
| OpCheckpointTick
| OpRestoreFromCheckpoint "StateTransition option"
| OpUpdatePolicy PartialPolicy
| OpGetUptime
| OpGetStatistics
| OpDestroy

fun lc_step :: "int \<Rightarrow> lc_op \<Rightarrow> lifecycle \<Rightarrow> lifecycle" where
  "lc_step now (OpTransitionTo st rsn md) s = snd (transitionTo st rsn md now s)"
| "lc_step now (OpForceTransitionTo st rsn md) s = snd (forceTransitionTo st rsn md now s)"
| "lc_step now (OpHandleError msg) s = snd (handleError msg now s)"
| "lc_step now (OpGracefulShutdown rsn) s = snd (gracefulShutdown rsn now s)"
| "lc_step now OpCreateCheckpoint s = snd (createCheckpoint now s)"
| "lc_step now OpCheckpointTick s = snd (checkpointTick now s)"
| "lc_step now (OpRestoreFromCheckpoint c) s = snd (restoreFromCheckpoint c now s)"
| "lc_step now (OpUpdatePolicy p) s = snd (updatePolicy p s)"
| "lc_step now OpGetUptime s = s"
| "lc_step now OpGetStatistics s = s"
| "lc_step now OpDestroy s = destroy s"

fun lc_run :: "(int \<times> lc_op) list \<Rightarrow> lifecycle \<Rightarrow> lifecycle" where
  "lc_run [] s = s"
| "lc_run ((now, op) # ops) s = lc_run ops (lc_step now op s)"

text \<open>
  The calls that can put an entry with target \<open>CREATED\<close> into the history: a forced
  transition to \<open>CREATED\<close>, a restore from a given checkpoint whose target is \<open>CREATED\<close>,
  and a checkpoint taken while the manager is in \<open>CREATED\<close>. A run is admissible when it
  makes none of them.
\<close>

fun op_admissible :: "lifecycle \<Rightarrow> lc_op \<Rightarrow> bool" where
  "op_admissible s (OpForceTransitionTo st rsn md) = (st \<noteq> CREATED)"
| "op_admissible s (OpRestoreFromCheckpoint (Some c)) = (t_to c \<noteq> CREATED)"
| "op_admissible s OpCreateCheckpoint = (currentState s \<noteq> CREATED)"
| "op_admissible s op = True"

fun run_admissible :: "(int \<times> lc_op) list \<Rightarrow> lifecycle \<Rightarrow> bool" where
  "run_admissible [] s = True"
| "run_admissible ((now, op) # ops) s =
     (op_admissible s op \<and> run_admissible ops (lc_step now op s))"

definition no_created_entry :: "lifecycle \<Rightarrow> bool" where
  "no_created_entry s = (list_all (\<lambda>t. t_to t \<noteq> CREATED) (stateHistory s))"

section \<open>Swarm coordinator (src/swarm/SwarmCoordinator.ts)\<close>

subsection \<open>Data\<close>

text \<open>
  JavaScript numbers are modelled as reals; the one place where the coordinator's
  arithmetic leaves the reals is the quotient \<open>0 / 0\<close> of \<^verbatim>\<open>calculateNodeScore\<close>, which
  is \<open>NaN\<close> and stays \<open>NaN\<close> through every later sum and difference.
\<close>

datatype jsnum = JNum real | JNaN

text \<open>
  The quotient is only taken of a count of matched requirements by the number of
  requirements, so a zero divisor comes with a zero dividend.
\<close>

fun js_div :: "real \<Rightarrow> real \<Rightarrow> jsnum" where
  "js_div a b = (if a = 0 \<and> b = 0 then JNaN else JNum (a / b))"

fun js_times :: "jsnum \<Rightarrow> real \<Rightarrow> jsnum" where
  "js_times (JNum a) b = JNum (a * b)"
| "js_times JNaN b = JNaN"

fun js_plus :: "jsnum \<Rightarrow> real \<Rightarrow> jsnum" where
  "js_plus (JNum a) b = JNum (a + b)"
| "js_plus JNaN b = JNaN"

fun js_minus :: "jsnum \<Rightarrow> jsnum \<Rightarrow> jsnum" where
  "js_minus (JNum a) (JNum b) = JNum (a - b)"
| "js_minus a b = JNaN"

text \<open>
  A \<^verbatim>\<open>SwarmNode\<close> without its agent handle: the agent's \<^verbatim>\<open>executeTask\<close> is the
  environment's (see \<open>execute\<close> below).
\<close>

record SwarmNode =
  node_id :: string
  capabilities :: "string list"
  loadFactor :: real
  reputation :: real
  lastSeen :: int

datatype task_status = Pending | Assigned | Executing | Completed | Failed

record TaskResult =
  r_taskId :: string
  r_agentId :: string
  r_success :: bool
  r_duration :: int

text \<open>
  A \<^verbatim>\<open>SwarmTask\<close>. The subtasks of a parent are the very objects stored in the task map;
  the parent's field holds their ids.
\<close>

record SwarmTask =
  task_id :: string
  description :: string
  requirements :: "string list"
  priority :: int
  subtasks :: "string list option"
  assignedNodes :: "string list option"
  status :: task_status
  result :: "TaskResult option"
  createdAt :: int
  deadline :: "int option"

datatype proposal_type = task_assignment | resource_allocation | strategy_change

record ProposalPayload =
  taskId :: string
  candidateNodes :: "string list"

record ConsensusProposal =
  proposal_id :: string
  proposerId :: string
  ptype :: proposal_type
  payload :: ProposalPayload
  votes :: "(string \<times> bool) list"
  threshold :: nat
  expiresAt :: int

record SwarmMetrics =
  totalNodes :: nat
  activeNodes :: nat
  completedTasks :: nat
  averageLoadFactor :: real
  consensusSuccessRate :: real
  averageTaskCompletionTime :: real

datatype sw_event =
  NodeRegistered string
| NodeUnregistered string
| TaskSubmitted string
| TaskAssigned string string
| TaskCompleted string
| TaskFailed string
| TaskAssignmentFailed string
| TaskRetryFailed string
| ConsensusStarted string
| ConsensusResolved string bool nat nat
| NodeStale string
| TaskCancelled string
| SwarmShutdown

text \<open>The callbacks handed to \<^verbatim>\<open>setTimeout\<close>, each kept with its delay.\<close>

datatype sw_timer = RetryTimer string | VotingTimer string | ResolveTimer string

text \<open>
  The coordinator's fields. Each of the three maps is keyed by the id field of its values
  (every \<^verbatim>\<open>set\<close> of the source passes the value's own id), so a map is the list of its
  values in insertion order. \<open>events\<close> is the trace of \<^verbatim>\<open>emit\<close> calls, \<open>timers\<close> the
  \<^verbatim>\<open>setTimeout\<close> callbacks scheduled so far, \<open>stateListeners\<close> the node ids for which
  \<^verbatim>\<open>registerNode\<close> subscribed to the lifecycle manager. Subscribers of the
  coordinator's own notifications are taken to return normally.
\<close>

record coordinator =
  nodes :: "SwarmNode list"
  tasks :: "SwarmTask list"
  proposals :: "ConsensusProposal list"
  metrics :: SwarmMetrics
  heartbeatInterval :: bool
  consensusTimeout :: int
  maxTaskRetries :: nat
  events :: "sw_event list"
  timers :: "(int \<times> sw_timer) list"
  stateListeners :: "string list"

text \<open>
  What a call reads from outside the coordinator: the clock, the outcome of
  \<^verbatim>\<open>node.agent.executeTask\<close> for a node id and a task id (\<open>None\<close> when the promise
  rejects), the draw \<^verbatim>\<open>Math.random() > 0.2\<close> of a node's simulated vote, and the id
  generated for the proposal about a task. The continuation after an \<^verbatim>\<open>await\<close> runs at
  once: no other handler is interleaved with a call. The states in which a call is
  suspended, with a task assigned or executing, are those of \<open>begin_execution\<close> below.
\<close>

record env =
  clock :: int
  execute :: "string \<Rightarrow> string \<Rightarrow> TaskResult option"
  random_vote :: "string \<Rightarrow> bool"
  new_proposal_id :: "string \<Rightarrow> string"

subsection \<open>Maps keyed by an id field\<close>

fun tbl_set :: "('a \<Rightarrow> string) \<Rightarrow> 'a \<Rightarrow> 'a list \<Rightarrow> 'a list" where
  "tbl_set key v [] = [v]"
| "tbl_set key v (x # xs) = (if key x = key v then v # xs else x # tbl_set key v xs)"

definition tbl_get :: "('a \<Rightarrow> string) \<Rightarrow> string \<Rightarrow> 'a list \<Rightarrow> 'a option" where
  "tbl_get key k xs = find (\<lambda>x. key x = k) xs"

definition tbl_delete :: "('a \<Rightarrow> string) \<Rightarrow> string \<Rightarrow> 'a list \<Rightarrow> 'a list" where
  "tbl_delete key k xs = filter (\<lambda>x. key x \<noteq> k) xs"

text \<open>A write through a reference to the object stored under \<open>k\<close>.\<close>

definition tbl_modify :: "('a \<Rightarrow> string) \<Rightarrow> string \<Rightarrow> ('a \<Rightarrow> 'a) \<Rightarrow> 'a list \<Rightarrow> 'a list" where
  "tbl_modify key k f xs = map (\<lambda>x. if key x = k then f x else x) xs"

subsection \<open>Strings and sorting\<close>

text \<open>\<^verbatim>\<open>cap.includes(req)\<close>: \<open>req\<close> occurs in \<open>cap\<close> as a contiguous substring.\<close>

fun starts_with :: "string \<Rightarrow> string \<Rightarrow> bool" where
  "starts_with s [] = True"
| "starts_with [] (c # p) = False"
| "starts_with (d # s) (c # p) = (d = c \<and> starts_with s p)"

fun includes_str :: "string \<Rightarrow> string \<Rightarrow> bool" where
  "includes_str [] req = (req = [])"
| "includes_str (c # cap) req = (starts_with (c # cap) req \<or> includes_str cap req)"

definition digit_char :: "nat \<Rightarrow> char" where
  "digit_char n = ''0123456789'' ! (n mod 10)"

text \<open>The decimal numeral of a template literal \<^verbatim>\<open>${i}\<close>.\<close>

fun show_nat :: "nat \<Rightarrow> string" where
  "show_nat n = (if n < 10 then [digit_char n] else show_nat (n div 10) @ [digit_char (n mod 10)])"

declare show_nat.simps [simp del]

text \<open>
  \<^verbatim>\<open>Array.prototype.sort\<close> with a comparator: the sort is stable, and a comparator
  result that is \<open>NaN\<close> counts as \<open>+0\<close>. \<open>comes_first v\<close> says that a comparator result \<open>v\<close>
  for \<open>(a, b)\<close> lets \<open>a\<close> stay in front of \<open>b\<close>.
\<close>

fun comes_first :: "jsnum \<Rightarrow> bool" where
  "comes_first (JNum v) = (v \<le> 0)"
| "comes_first JNaN = True"

fun js_insert :: "('a \<Rightarrow> 'a \<Rightarrow> jsnum) \<Rightarrow> 'a \<Rightarrow> 'a list \<Rightarrow> 'a list" where
  "js_insert cmp a [] = [a]"
| "js_insert cmp a (b # bs) =
     (if comes_first (cmp a b) then a # b # bs else b # js_insert cmp a bs)"

definition js_sort :: "('a \<Rightarrow> 'a \<Rightarrow> jsnum) \<Rightarrow> 'a list \<Rightarrow> 'a list" where
  "js_sort cmp xs = foldr (js_insert cmp) xs []"

subsection \<open>Candidate search\<close>

definition hasCapabilities :: "SwarmNode \<Rightarrow> SwarmTask \<Rightarrow> bool" where
  "hasCapabilities node task =
     list_all (\<lambda>req. list_ex (\<lambda>cap. includes_str cap req) (capabilities node)) (requirements task)"

definition calculateNodeScore :: "SwarmNode \<Rightarrow> SwarmTask \<Rightarrow> jsnum" where
  "calculateNodeScore node task =
     (let capabilityMatch =
            js_div
              (foldl (\<lambda>acc req. acc +
                   (if list_ex (\<lambda>cap. includes_str cap req) (capabilities node) then 1 else 0))
                 0 (requirements task))
              (real (length (requirements task)));
          score1 = js_times capabilityMatch 40;
          score2 = js_plus score1 ((1 - loadFactor node) * 30);
          score3 = js_plus score2 ((reputation node / 100) * 30)
      in score3)"

definition suitable :: "SwarmTask \<Rightarrow> SwarmNode \<Rightarrow> bool" where
  "suitable task node =
     (hasCapabilities node task \<and> loadFactor node < 8 / 10 \<and> reputation node > 50)"

definition findSuitableNodes :: "SwarmTask \<Rightarrow> SwarmNode list \<Rightarrow> SwarmNode list" where
  "findSuitableNodes task ns =
     js_sort (\<lambda>a b. js_minus (calculateNodeScore b task) (calculateNodeScore a task))
       (filter (suitable task) ns)"

subsection \<open>Operations\<close>

definition initial_metrics :: SwarmMetrics where
  "initial_metrics =
     \<lparr>totalNodes = 0, activeNodes = 0, completedTasks = 0, averageLoadFactor = 0,
      consensusSuccessRate = 0, averageTaskCompletionTime = 0\<rparr>"

definition new_coordinator :: coordinator where
  "new_coordinator =
     \<lparr>nodes = [], tasks = [], proposals = [], metrics = initial_metrics,
      heartbeatInterval = True, consensusTimeout = 30000, maxTaskRetries = 3,
      events = [], timers = [], stateListeners = []\<rparr>"

definition sw_emit :: "sw_event \<Rightarrow> coordinator \<Rightarrow> coordinator" where
  "sw_emit ev s = s\<lparr>events := events s @ [ev]\<rparr>"

definition updateMetrics :: "env \<Rightarrow> coordinator \<Rightarrow> coordinator" where
  "updateMetrics e s =
     (let m1 = (metrics s)\<lparr>totalNodes := length (nodes s),
                 activeNodes := length (filter (\<lambda>n. clock e - lastSeen n < 60000) (nodes s))\<rparr>;
          m2 = (if length (nodes s) > 0
                then m1\<lparr>averageLoadFactor :=
                       foldl (\<lambda>sum n. sum + loadFactor n) 0 (nodes s) / real (length (nodes s))\<rparr>
                else m1)
      in s\<lparr>metrics := m2\<rparr>)"

definition updateConsensusMetrics :: "bool \<Rightarrow> coordinator \<Rightarrow> coordinator" where
  "updateConsensusMetrics success s =
     s\<lparr>metrics := (metrics s)\<lparr>consensusSuccessRate :=
          consensusSuccessRate (metrics s) * (9 / 10) + (if success then 1 / 10 else 0)\<rparr>\<rparr>"

definition shouldDecomposeTask :: "SwarmTask \<Rightarrow> bool" where
  "shouldDecomposeTask task =
     (length (requirements task) > 2 \<or> priority task \<ge> 7 \<or> length (description task) > 200)"

text \<open>
  The three writes to a node made by \<^verbatim>\<open>directAssignTask\<close>. The load factor is a real
  here and a double in the source, where repeated sums of 0.1 carry a rounding error:
  eight assignments without a completion give 0.7999999999999999 there and \<open>8 / 10\<close>
  here. The two differ only where a load factor meets the threshold 0.8 of the candidate
  filter exactly; the clamps to \<open>[0, 1]\<close> and \<open>[0, 100]\<close> act on doubles as on reals.
\<close>

definition node_assigned :: "SwarmNode \<Rightarrow> SwarmNode" where
  "node_assigned n = n\<lparr>loadFactor := min 1 (loadFactor n + 1 / 10)\<rparr>"

definition node_succeeded :: "SwarmNode \<Rightarrow> SwarmNode" where
  "node_succeeded n =
     n\<lparr>loadFactor := max 0 (loadFactor n - 1 / 10), reputation := min 100 (reputation n + 2)\<rparr>"

definition node_failed :: "SwarmNode \<Rightarrow> SwarmNode" where
  "node_failed n =
     n\<lparr>loadFactor := max 0 (loadFactor n - 1 / 10), reputation := max 0 (reputation n - 5)\<rparr>"

definition modify_task :: "string \<Rightarrow> (SwarmTask \<Rightarrow> SwarmTask) \<Rightarrow> coordinator \<Rightarrow> coordinator" where
  "modify_task tid f s = s\<lparr>tasks := tbl_modify task_id tid f (tasks s)\<rparr>"

definition modify_node :: "string \<Rightarrow> (SwarmNode \<Rightarrow> SwarmNode) \<Rightarrow> coordinator \<Rightarrow> coordinator" where
  "modify_node nid f s = s\<lparr>nodes := tbl_modify node_id nid f (nodes s)\<rparr>"

text \<open>
  \<^verbatim>\<open>!task.assignedNodes || task.assignedNodes.length < this.maxTaskRetries\<close>, read from the
  task as it stands when the execution has failed.
\<close>

definition retries_available :: "string \<Rightarrow> coordinator \<Rightarrow> bool" where
  "retries_available tid s =
     (case tbl_get task_id tid (tasks s) of
        None \<Rightarrow> False
      | Some task \<Rightarrow>
          (case assignedNodes task of
             None \<Rightarrow> True
           | Some ns \<Rightarrow> length ns < maxTaskRetries s))"

text \<open>
  \<^verbatim>\<open>directAssignTask(task, node)\<close>, for the task and the node stored under the two ids.
\<close>

definition directAssignTask :: "env \<Rightarrow> string \<Rightarrow> string \<Rightarrow> coordinator \<Rightarrow> coordinator" where
  "directAssignTask e tid nid s =
     (let s1 = modify_task tid (\<lambda>t. t\<lparr>status := Assigned, assignedNodes := Some [nid]\<rparr>) s;
          s2 = modify_node nid node_assigned s1;
          s3 = sw_emit (TaskAssigned tid nid) s2;
          s4 = modify_task tid (\<lambda>t. t\<lparr>status := Executing\<rparr>) s3
      in case execute e nid tid of
           Some res \<Rightarrow>
             (let s5 = modify_task tid (\<lambda>t. t\<lparr>status := Completed, result := Some res\<rparr>) s4;
                  s6 = modify_node nid node_succeeded s5;
                  s7 = s6\<lparr>metrics := (metrics s6)\<lparr>completedTasks :=
                            completedTasks (metrics s6) + 1\<rparr>\<rparr>
              in sw_emit (TaskCompleted tid) s7)
         | None \<Rightarrow>
             (let s5 = modify_task tid (\<lambda>t. t\<lparr>status := Failed\<rparr>) s4;
                  s6 = modify_node nid node_failed s5;
                  s7 = sw_emit (TaskFailed tid) s6
              in if retries_available tid s7
                 then s7\<lparr>timers := timers s7 @ [(5000, RetryTimer tid)]\<rparr>
                 else s7))"

definition assignTaskWithConsensus ::
  "env \<Rightarrow> string \<Rightarrow> SwarmNode list \<Rightarrow> coordinator \<Rightarrow> coordinator" where
  "assignTaskWithConsensus e tid candidates s =
     (let proposalId = new_proposal_id e tid;
          proposal =
            \<lparr>proposal_id = proposalId, proposerId = ''coordinator'', ptype = task_assignment,
             payload = \<lparr>taskId = tid, candidateNodes = map node_id candidates\<rparr>,
             votes = [],
             threshold = nat \<lceil>real (length (nodes s)) * (6 / 10)\<rceil>,
             expiresAt = clock e + consensusTimeout s\<rparr>;
          s1 = s\<lparr>proposals := tbl_set proposal_id proposal (proposals s)\<rparr>;
          s2 = sw_emit (ConsensusStarted proposalId) s1
      in s2\<lparr>timers := timers s2 @
            [(1000, VotingTimer proposalId), (consensusTimeout s2, ResolveTimer proposalId)]\<rparr>)"

text \<open>\<^verbatim>\<open>assignTask(task)\<close>, for the task stored under the id.\<close>

definition assignTask :: "env \<Rightarrow> string \<Rightarrow> coordinator \<Rightarrow> coordinator" where
  "assignTask e tid s =
     (case tbl_get task_id tid (tasks s) of
        None \<Rightarrow> s
      | Some task \<Rightarrow>
          (let suitableNodes = findSuitableNodes task (nodes s)
           in case suitableNodes of
                [] \<Rightarrow> sw_emit (TaskAssignmentFailed tid) s
              | bestNode # others \<Rightarrow>
                  (if priority task \<ge> 8 \<or> ''critical'' \<in> set (requirements task)
                   then assignTaskWithConsensus e tid suitableNodes s
                   else directAssignTask e tid (node_id bestNode) s)))"

text \<open>The subtask objects built by \<^verbatim>\<open>decomposeTask\<close> before any of them is assigned.\<close>

definition new_subtask :: "string \<Rightarrow> string \<Rightarrow> string \<Rightarrow> int \<Rightarrow> int \<Rightarrow> SwarmTask" where
  "new_subtask sid descr req prio now =
     \<lparr>task_id = sid, description = descr, requirements = [req], priority = prio,
      subtasks = None, assignedNodes = None, status = Pending, result = None,
      createdAt = now, deadline = None\<rparr>"

definition build_subtasks :: "int \<Rightarrow> SwarmTask \<Rightarrow> SwarmTask list" where
  "build_subtasks now task =
     (if ''data_processing'' \<in> set (requirements task) \<and> ''analysis'' \<in> set (requirements task)
      then [new_subtask (task_id task @ ''_data'')
              (''Data processing for: '' @ description task) ''data_processing''
              (priority task) now,
            new_subtask (task_id task @ ''_analysis'')
              (''Analysis for: '' @ description task) ''analysis'' (priority task) now]
      else if length (requirements task) > 2
      then map (\<lambda>i. new_subtask (task_id task @ ''_sub_'' @ show_nat i)
                  (''Subtask '' @ show_nat (i + 1) @ '': '' @ description task)
                  (requirements task ! i) (priority task) now)
             [0 ..< length (requirements task)]
      else [])"

definition register_and_assign :: "env \<Rightarrow> coordinator \<Rightarrow> SwarmTask \<Rightarrow> coordinator" where
  "register_and_assign e s subtask =
     assignTask e (task_id subtask) (s\<lparr>tasks := tbl_set task_id subtask (tasks s)\<rparr>)"

definition decomposeTask :: "env \<Rightarrow> string \<Rightarrow> coordinator \<Rightarrow> coordinator" where
  "decomposeTask e tid s =
     (case tbl_get task_id tid (tasks s) of
        None \<Rightarrow> s
      | Some task \<Rightarrow>
          (let subs = build_subtasks (clock e) task
           in if length subs > 0
              then foldl (register_and_assign e)
                     (modify_task tid (\<lambda>t. t\<lparr>subtasks := Some (map task_id subs)\<rparr>) s) subs
              else assignTask e tid s))"

text \<open>
  \<^verbatim>\<open>submitTask(task)\<close>: \<open>tid\<close> is the generated id; the spread
  \<^verbatim>\<open>{ ...task, id, status, createdAt }\<close> keeps every other field of the argument.
\<close>

definition submitTask :: "env \<Rightarrow> string \<Rightarrow> SwarmTask \<Rightarrow> coordinator \<Rightarrow> coordinator" where
  "submitTask e tid task s =
     (let swarmTask = task\<lparr>task_id := tid, status := Pending, createdAt := clock e\<rparr>;
          s1 = s\<lparr>tasks := tbl_set task_id swarmTask (tasks s)\<rparr>;
          s2 = sw_emit (TaskSubmitted tid) s1
      in if shouldDecomposeTask swarmTask then decomposeTask e tid s2 else assignTask e tid s2)"

text \<open>\<^verbatim>\<open>retryTask(task)\<close>, the callback of a \<open>RetryTimer\<close>.\<close>

definition retryTask :: "env \<Rightarrow> string \<Rightarrow> coordinator \<Rightarrow> coordinator" where
  "retryTask e tid s =
     (let s1 = modify_task tid (\<lambda>t. t\<lparr>status := Pending\<rparr>) s
      in case tbl_get task_id tid (tasks s1) of
           None \<Rightarrow> s1
         | Some task \<Rightarrow>
             (let previousNodes = or_else (assignedNodes task) [];
                  suitableNodes = filter (\<lambda>node. node_id node \<notin> set previousNodes)
                                    (findSuitableNodes task (nodes s1))
              in case suitableNodes of
                   [] \<Rightarrow> sw_emit (TaskRetryFailed tid) s1
                 | n # others \<Rightarrow> directAssignTask e tid (node_id n) s1))"

definition in_flight_on :: "string \<Rightarrow> SwarmTask \<Rightarrow> bool" where
  "in_flight_on nid task =
     ((case assignedNodes task of None \<Rightarrow> False | Some ns \<Rightarrow> nid \<in> set ns)
      \<and> (status task = Assigned \<or> status task = Executing))"

definition reassign_one :: "env \<Rightarrow> string \<Rightarrow> coordinator \<Rightarrow> string \<Rightarrow> coordinator" where
  "reassign_one e nid s tid =
     assignTask e tid
       (modify_task tid
          (\<lambda>t. t\<lparr>status := Pending,
                 assignedNodes := map_option (filter (\<lambda>i. i \<noteq> nid)) (assignedNodes t)\<rparr>) s)"

definition reassignNodeTasks :: "env \<Rightarrow> string \<Rightarrow> coordinator \<Rightarrow> coordinator" where
  "reassignNodeTasks e nid s =
     (let nodeTasks = filter (in_flight_on nid) (tasks s)
      in foldl (reassign_one e nid) s (map task_id nodeTasks))"

definition registerNode :: "env \<Rightarrow> string \<Rightarrow> string list \<Rightarrow> coordinator \<Rightarrow> coordinator" where
  "registerNode e nodeId caps s =
     (let node = \<lparr>node_id = nodeId, capabilities = caps, loadFactor = 0, reputation = 100,
                  lastSeen = clock e\<rparr>;
          s1 = s\<lparr>nodes := tbl_set node_id node (nodes s)\<rparr>;
          s2 = s1\<lparr>metrics := (metrics s1)\<lparr>totalNodes := length (nodes s1)\<rparr>\<rparr>;
          s3 = updateMetrics e s2;
          s4 = sw_emit (NodeRegistered nodeId) s3
      in s4\<lparr>stateListeners := stateListeners s4 @ [nodeId]\<rparr>)"

definition unregisterNode :: "env \<Rightarrow> string \<Rightarrow> coordinator \<Rightarrow> coordinator" where
  "unregisterNode e nodeId s =
     (case tbl_get node_id nodeId (nodes s) of
        None \<Rightarrow> s
      | Some node \<Rightarrow>
          (let s1 = reassignNodeTasks e nodeId s;
               s2 = s1\<lparr>nodes := tbl_delete node_id nodeId (nodes s1)\<rparr>;
               s3 = s2\<lparr>metrics := (metrics s2)\<lparr>totalNodes := length (nodes s2)\<rparr>\<rparr>;
               s4 = updateMetrics e s3
           in sw_emit (NodeUnregistered nodeId) s4))"

text \<open>
  \<^verbatim>\<open>simulateVoting(proposal)\<close>, the callback of a \<open>VotingTimer\<close>; the proposal is the
  object created by \<^verbatim>\<open>assignTaskWithConsensus\<close>, found under its id while it is in the
  map.
\<close>

definition simulateVoting :: "env \<Rightarrow> string \<Rightarrow> coordinator \<Rightarrow> coordinator" where
  "simulateVoting e pid s =
     s\<lparr>proposals := tbl_modify proposal_id pid
          (\<lambda>p. p\<lparr>votes := foldl (\<lambda>vs node. AList.update (node_id node)
                       (loadFactor node < 7 / 10 \<and> reputation node > 60
                          \<and> random_vote e (node_id node)) vs)
                     (votes p) (nodes s)\<rparr>)
          (proposals s)\<rparr>"

text \<open>
  The body of \<^verbatim>\<open>if (consensusReached && proposal.type === 'task_assignment')\<close> in
  \<^verbatim>\<open>resolveConsensus\<close>.
\<close>

definition execute_decision :: "env \<Rightarrow> ConsensusProposal \<Rightarrow> coordinator \<Rightarrow> coordinator" where
  "execute_decision e proposal s =
     (let task = tbl_get task_id (taskId (payload proposal)) (tasks s);
          candidates = List.map_filter (\<lambda>i. tbl_get node_id i (nodes s))
                         (candidateNodes (payload proposal))
      in case task of
           None \<Rightarrow> s
         | Some t \<Rightarrow>
             (case candidates of
                [] \<Rightarrow> s
              | c # cs \<Rightarrow> directAssignTask e (task_id t) (node_id c) s))"

text \<open>\<^verbatim>\<open>resolveConsensus(proposalId)\<close>, the callback of a \<open>ResolveTimer\<close>.\<close>

definition resolveConsensus :: "env \<Rightarrow> string \<Rightarrow> coordinator \<Rightarrow> coordinator" where
  "resolveConsensus e proposalId s =
     (case tbl_get proposal_id proposalId (proposals s) of
        None \<Rightarrow> s
      | Some proposal \<Rightarrow>
          (let yesVotes = length (filter (\<lambda>v. v) (map snd (votes proposal)));
               consensusReached = (yesVotes \<ge> threshold proposal);
               s1 = sw_emit (ConsensusResolved proposalId consensusReached yesVotes
                               (threshold proposal)) s;
               s2 = (if consensusReached \<and> ptype proposal = task_assignment
                     then execute_decision e proposal s1 else s1);
               s3 = s2\<lparr>proposals := tbl_delete proposal_id proposalId (proposals s2)\<rparr>
           in updateConsensusMetrics consensusReached s3))"

text \<open>
  \<^verbatim>\<open>handleAgentStateChange\<close>, the body of the listener subscribed by \<^verbatim>\<open>registerNode\<close>.
\<close>

definition handleAgentStateChange :: "env \<Rightarrow> string \<Rightarrow> string \<Rightarrow> coordinator \<Rightarrow> coordinator" where
  "handleAgentStateChange e nodeId state s =
     (case tbl_get node_id nodeId (nodes s) of
        None \<Rightarrow> s
      | Some node \<Rightarrow>
          (let s1 = modify_node nodeId (\<lambda>n. n\<lparr>lastSeen := clock e\<rparr>) s
           in if state = ''terminated'' \<or> state = ''error''
              then reassignNodeTasks e nodeId s1 else s1))"

definition checkNodeHealth :: "env \<Rightarrow> coordinator \<Rightarrow> coordinator" where
  "checkNodeHealth e s =
     foldl (\<lambda>acc node. if clock e - lastSeen node > 60000
                        then sw_emit (NodeStale (node_id node)) acc else acc)
       s (nodes s)"

text \<open>The callback of the heartbeat interval.\<close>

definition heartbeat :: "env \<Rightarrow> coordinator \<Rightarrow> coordinator" where
  "heartbeat e s = (if heartbeatInterval s then updateMetrics e (checkNodeHealth e s) else s)"

definition shutdown :: "coordinator \<Rightarrow> coordinator" where
  "shutdown s =
     (let s1 = (if heartbeatInterval s then s\<lparr>heartbeatInterval := False\<rparr> else s);
          activeTasks = filter (\<lambda>t. status t = Executing) (tasks s1);
          s2 = foldl (\<lambda>acc t. sw_emit (TaskCancelled (task_id t))
                                 (modify_task (task_id t) (\<lambda>x. x\<lparr>status := Failed\<rparr>) acc))
                 s1 activeTasks
      in sw_emit SwarmShutdown s2)"

definition getNodes :: "coordinator \<Rightarrow> SwarmNode list" where
  "getNodes s = nodes s"

definition getTasks :: "coordinator \<Rightarrow> SwarmTask list" where
  "getTasks s = tasks s"

definition getActiveProposals :: "coordinator \<Rightarrow> ConsensusProposal list" where
  "getActiveProposals s = proposals s"

definition getMetrics :: "coordinator \<Rightarrow> SwarmMetrics" where
  "getMetrics s = metrics s"

subsection \<open>Runs\<close>

text \<open>
  A run of the coordinator is a sequence of calls, each with what it reads from outside.
  The public calls and the timer and listener callbacks all appear as calls.
\<close>

datatype sw_op =
  OpRegisterNode string "string list"
| OpUnregisterNode string
| OpSubmitTask string SwarmTask
| OpRetryTask string
| OpSimulateVoting string
| OpResolveConsensus string
| OpAgentStateChange string string
| OpHeartbeat
| OpShutdown

fun sw_step :: "env \<Rightarrow> sw_op \<Rightarrow> coordinator \<Rightarrow> coordinator" where
  "sw_step e (OpRegisterNode nid caps) s = registerNode e nid caps s"
| "sw_step e (OpUnregisterNode nid) s = unregisterNode e nid s"
| "sw_step e (OpSubmitTask tid task) s = submitTask e tid task s"
| "sw_step e (OpRetryTask tid) s = retryTask e tid s"
| "sw_step e (OpSimulateVoting pid) s = simulateVoting e pid s"
| "sw_step e (OpResolveConsensus pid) s = resolveConsensus e pid s"
| "sw_step e (OpAgentStateChange nid st) s = handleAgentStateChange e nid st s"
| "sw_step e OpHeartbeat s = heartbeat e s"
| "sw_step e OpShutdown s = shutdown s"

fun sw_run :: "(env \<times> sw_op) list \<Rightarrow> coordinator \<Rightarrow> coordinator" where
  "sw_run [] s = s"
| "sw_run ((e, op) # ops) s = sw_run ops (sw_step e op s)"

subsection \<open>Notions used in the statements\<close>

text \<open>The bounds of a node's load factor and reputation.\<close>

definition node_in_bounds :: "SwarmNode \<Rightarrow> bool" where
  "node_in_bounds n = (0 \<le> loadFactor n \<and> loadFactor n \<le> 1 \<and> 0 \<le> reputation n \<and> reputation n \<le> 100)"

definition nodes_in_bounds :: "coordinator \<Rightarrow> bool" where
  "nodes_in_bounds s = list_all node_in_bounds (nodes s)"

text \<open>
  What one call of \<^verbatim>\<open>directAssignTask\<close> does to the node and to the task it is given:
  the writes of the assignment followed by those of the outcome.
\<close>

definition node_after :: "TaskResult option \<Rightarrow> SwarmNode \<Rightarrow> SwarmNode" where
  "node_after outcome n =
     (case outcome of Some res \<Rightarrow> node_succeeded (node_assigned n)
                    | None \<Rightarrow> node_failed (node_assigned n))"

definition task_after :: "string \<Rightarrow> TaskResult option \<Rightarrow> SwarmTask \<Rightarrow> SwarmTask" where
  "task_after nid outcome t =
     (case outcome of
        Some res \<Rightarrow> t\<lparr>assignedNodes := Some [nid], status := Completed, result := Some res\<rparr>
      | None \<Rightarrow> t\<lparr>assignedNodes := Some [nid], status := Failed\<rparr>)"

text \<open>
  The score as the specification states it,
  \<open>40 * capabilityMatchRatio + 30 * (1 - loadFactor) + 30 * (reputation / 100)\<close>, with the
  ratio of matched requirements; it is compared with \<open>calculateNodeScore\<close> below.
\<close>

definition matched_requirements :: "SwarmNode \<Rightarrow> SwarmTask \<Rightarrow> nat" where
  "matched_requirements node task = length (filter (\<lambda>req. \<exists>cap \<in> set (capabilities node). includes_str cap req) (requirements task))"

definition spec_score :: "SwarmNode \<Rightarrow> SwarmTask \<Rightarrow> real" where
  "spec_score node task =
     40 * (real (matched_requirements node task) / real (length (requirements task)))
     + 30 * (1 - loadFactor node) + 30 * (reputation node / 100)"


text \<open>
  For a proposal id: the number of \<^verbatim>\<open>consensusResolved\<close> notifications in the trace, the
  number of \<^verbatim>\<open>consensusStarted\<close> notifications, and whether a proposal with the id is
  in the map. \<open>rounds_cover\<close> says that every resolution, and every proposal still in
  the map, has a started round of its own.
\<close>

fun is_resolved :: "string \<Rightarrow> sw_event \<Rightarrow> bool" where
  "is_resolved pid (ConsensusResolved p r y t) = (p = pid)"
| "is_resolved pid ev = False"

fun is_started :: "string \<Rightarrow> sw_event \<Rightarrow> bool" where
  "is_started pid (ConsensusStarted p) = (p = pid)"
| "is_started pid ev = False"

definition resolutions :: "string \<Rightarrow> coordinator \<Rightarrow> nat" where
  "resolutions pid s = length (filter (is_resolved pid) (events s))"

definition rounds :: "string \<Rightarrow> coordinator \<Rightarrow> nat" where
  "rounds pid s = length (filter (is_started pid) (events s))"

definition open_round :: "string \<Rightarrow> coordinator \<Rightarrow> nat" where
  "open_round pid s = (if pid \<in> proposal_id ` set (proposals s) then 1 else 0)"

definition rounds_cover :: "coordinator \<Rightarrow> bool" where
  "rounds_cover s = (\<forall>pid. resolutions pid s + open_round pid s \<le> rounds pid s)"

text \<open>
  The fields of a task that assignment never writes: its id, description, requirements,
  priority and subtask ids.
\<close>

type_synonym task_shape_t = "string \<times> string \<times> string list \<times> int \<times> string list option"

definition task_shape :: "SwarmTask \<Rightarrow> task_shape_t" where
  "task_shape t = (task_id t, description t, requirements t, priority t, subtasks t)"

text \<open>
  \<open>reset_for nid\<close> is the write of \<^verbatim>\<open>reassignNodeTasks\<close> to a task of node \<open>nid\<close>;
  \<open>reassigned nid t t'\<close> says that \<open>t'\<close> is \<open>t\<close> after that write and a pass through the
  assignment policy: left as reset (no candidate, or a consensus round started), or
  dispatched to a candidate \<open>c\<close> with outcome \<open>r\<close>.
\<close>

definition reset_for :: "string \<Rightarrow> SwarmTask \<Rightarrow> SwarmTask" where
  "reset_for nid t =
     t\<lparr>status := Pending, assignedNodes := map_option (filter (\<lambda>i. i \<noteq> nid)) (assignedNodes t)\<rparr>"


text \<open>
  \<open>references nid t\<close> says that \<open>nid\<close> occurs in \<^verbatim>\<open>assignedNodes\<close> of \<open>t\<close>.
  \<open>handed_back e nid s tid\<close> says that \<^verbatim>\<open>unregisterNode(nid)\<close>, called in state \<open>s\<close>,
  announces \<^verbatim>\<open>taskAssigned\<close> of task \<open>tid\<close> to \<open>nid\<close> itself; the notifications of the
  call are those that follow the ones already in the trace. \<open>never_candidate nid s\<close> says
  that the candidate filter rejects node \<open>nid\<close> for each of its tasks in flight: the node
  lacks a capability, is loaded at 0.8 or above, or has a reputation of 50 or below.
  \<open>on_registered ns t\<close> says that \<open>t\<close> is pending or has exactly one assigned node, which
  is one of the nodes \<open>ns\<close>.
\<close>

definition references :: "string \<Rightarrow> SwarmTask \<Rightarrow> bool" where
  "references nid t = (case assignedNodes t of None \<Rightarrow> False | Some ns \<Rightarrow> nid \<in> set ns)"

definition handed_back :: "env \<Rightarrow> string \<Rightarrow> coordinator \<Rightarrow> string \<Rightarrow> bool" where
  "handed_back e nid s tid =
     (TaskAssigned tid nid \<in> set (drop (length (events s)) (events (unregisterNode e nid s))))"


definition on_registered :: "SwarmNode list \<Rightarrow> SwarmTask \<Rightarrow> bool" where
  "on_registered ns t =
     (status t = Pending \<or> (\<exists>n \<in> set ns. assignedNodes t = Some [node_id n]))"

text \<open>
  \<^verbatim>\<open>directAssignTask\<close> is suspended at \<^verbatim>\<open>await node.agent.executeTask(task)\<close>.
  \<open>begin_execution\<close> is the call up to that point, which leaves the task executing on the
  node; \<open>settle_execution\<close> is the continuation that runs when the promise settles, given
  the outcome. \<open>directAssignTask\<close> above is the one followed at once by the other.
  \<open>task_submitted\<close> is \<^verbatim>\<open>submitTask\<close> up to its call of \<^verbatim>\<open>decomposeTask\<close> or
  \<^verbatim>\<open>assignTask\<close>.
\<close>

definition begin_execution :: "string \<Rightarrow> string \<Rightarrow> coordinator \<Rightarrow> coordinator" where
  "begin_execution tid nid s =
     (let s1 = modify_task tid (\<lambda>t. t\<lparr>status := Assigned, assignedNodes := Some [nid]\<rparr>) s;
          s2 = modify_node nid node_assigned s1;
          s3 = sw_emit (TaskAssigned tid nid) s2
      in modify_task tid (\<lambda>t. t\<lparr>status := Executing\<rparr>) s3)"

definition settle_execution ::
  "TaskResult option \<Rightarrow> string \<Rightarrow> string \<Rightarrow> coordinator \<Rightarrow> coordinator" where
  "settle_execution outcome tid nid s4 =
     (case outcome of
        Some res \<Rightarrow>
          (let s5 = modify_task tid (\<lambda>t. t\<lparr>status := Completed, result := Some res\<rparr>) s4;
               s6 = modify_node nid node_succeeded s5;
               s7 = s6\<lparr>metrics := (metrics s6)\<lparr>completedTasks :=
                         completedTasks (metrics s6) + 1\<rparr>\<rparr>
           in sw_emit (TaskCompleted tid) s7)
      | None \<Rightarrow>
          (let s5 = modify_task tid (\<lambda>t. t\<lparr>status := Failed\<rparr>) s4;
               s6 = modify_node nid node_failed s5;
               s7 = sw_emit (TaskFailed tid) s6
           in if retries_available tid s7
              then s7\<lparr>timers := timers s7 @ [(5000, RetryTimer tid)]\<rparr>
              else s7))"

definition task_submitted :: "env \<Rightarrow> string \<Rightarrow> SwarmTask \<Rightarrow> coordinator \<Rightarrow> coordinator" where
  "task_submitted e tid task s =
     sw_emit (TaskSubmitted tid)
       (s\<lparr>tasks := tbl_set task_id (task\<lparr>task_id := tid, status := Pending, createdAt := clock e\<rparr>)
                    (tasks s)\<rparr>)"

text \<open>The keys of the task map are distinct.\<close>

definition task_ids_distinct :: "coordinator \<Rightarrow> bool" where
  "task_ids_distinct s = distinct (map task_id (tasks s))"

subsection \<open>Example inputs\<close>

text \<open>
  An agent that resolves every task (as the mock agent of the test suite does) and one
  that rejects every task; a task with given requirements and priority; two nodes with
  capability \<open>x\<close>, registered in the order \<open>A\<close>, \<open>B\<close>.
\<close>

definition example_result :: "string \<Rightarrow> string \<Rightarrow> TaskResult" where
  "example_result n t = \<lparr>r_taskId = t, r_agentId = n, r_success = True, r_duration = 100\<rparr>"

definition env_succeed :: env where
  "env_succeed = \<lparr>clock = 0, execute = (\<lambda>n t. Some (example_result n t)),
      random_vote = (\<lambda>n. True), new_proposal_id = (\<lambda>t. ''proposal_'' @ t)\<rparr>"

definition env_fail :: env where
  "env_fail = \<lparr>clock = 0, execute = (\<lambda>n t. None),
      random_vote = (\<lambda>n. True), new_proposal_id = (\<lambda>t. ''proposal_'' @ t)\<rparr>"

definition example_task :: "string list \<Rightarrow> int \<Rightarrow> SwarmTask" where
  "example_task reqs prio =
     \<lparr>task_id = [], description = ''d'', requirements = reqs, priority = prio,
      subtasks = None, assignedNodes = None, status = Pending, result = None,
      createdAt = 0, deadline = None\<rparr>"

definition two_nodes :: coordinator where
  "two_nodes = sw_run [(env_fail, OpRegisterNode ''A'' [''x'']), (env_fail, OpRegisterNode ''B'' [''x''])] new_coordinator"


text \<open>
  States in which a \<^verbatim>\<open>submitTask\<close> call is suspended at the execution of its task:
  \<open>suspended_state\<close>, with \<open>T1\<close> executing on node \<open>A\<close>, which completed \<open>T2\<close> before node
  \<open>B\<close> was registered; \<open>changed_state\<close>, the same after \<open>A\<close> has registered again with
  another capability; \<open>lone_suspended\<close>, with \<open>T1\<close> executing on the only node \<open>A\<close>.
\<close>

definition one_served :: coordinator where
  "one_served =
     sw_run [(env_succeed, OpRegisterNode ''A'' [''x'']),
             (env_succeed, OpSubmitTask ''T2'' (example_task [''x''] 1)),
             (env_succeed, OpRegisterNode ''B'' [''x''])] new_coordinator"

definition suspended_state :: coordinator where
  "suspended_state =
     begin_execution ''T1'' ''A'' (task_submitted env_succeed ''T1'' (example_task [''x''] 1) one_served)"

definition changed_state :: coordinator where
  "changed_state = registerNode env_succeed ''A'' [''y''] suspended_state"

definition lone_suspended :: coordinator where
  "lone_suspended =
     begin_execution ''T1'' ''A''
       (task_submitted env_succeed ''T1'' (example_task [''x''] 1)
          (sw_run [(env_succeed, OpRegisterNode ''A'' [''x''])] new_coordinator))"


section \<open>Properties of the lifecycle state machine\<close>

subsection \<open>Notifications leave the state and the history alone\<close>

lemma emit_state [simp]:
  "currentState (snd (emit ev s)) = currentState s"
  "stateHistory (snd (emit ev s)) = stateHistory s"
  "throwing (snd (emit ev s)) = throwing s"
  "retryCount (snd (emit ev s)) = retryCount s"
  "policy (snd (emit ev s)) = policy s"
  by (simp_all add: emit_def)

lemma emit_quiet: "\<not> throwing s (channel_of ev) \<Longrightarrow> fst (emit ev s) = Inr ()"
  by (simp add: emit_def)

lemma stopCheckpointing_state [simp]:
  "currentState (stopCheckpointing s) = currentState s"
  "stateHistory (stopCheckpointing s) = stateHistory s"
  "throwing (stopCheckpointing s) = throwing s"
  "retryCount (stopCheckpointing s) = retryCount s"
  "policy (stopCheckpointing s) = policy s"
  by (simp_all add: stopCheckpointing_def)

lemma executeTransition_history:
  "stateHistory (snd (executeTransition tr s)) = stateHistory s @ [tr]"
  by (simp add: executeTransition_def Let_def emit_def stopCheckpointing_def split: prod.splits sum.splits)

lemma executeTransition_current:
  "currentState (snd (executeTransition tr s)) = t_to tr"
  by (simp add: executeTransition_def Let_def emit_def stopCheckpointing_def split: prod.splits sum.splits)

lemma executeTransition_throwing:
  "throwing (snd (executeTransition tr s)) = throwing s"
  by (simp add: executeTransition_def Let_def emit_def stopCheckpointing_def split: prod.splits sum.splits)

lemma executeTransition_quiet:
  "\<forall>c. \<not> throwing s c \<Longrightarrow> fst (executeTransition tr s) = Inr ()"
  by (simp add: executeTransition_def Let_def emit_def stopCheckpointing_def split: prod.splits sum.splits)

lemma canTransitionTo_iff:
  "canTransitionTo s t \<longleftrightarrow> t \<in> set (VALID_TRANSITIONS (currentState s))"
  by (simp add: canTransitionTo_def)

lemma transitionTo_rejected:
  "S' \<notin> set (VALID_TRANSITIONS (currentState s)) \<Longrightarrow>
     fst (transitionTo S' rsn md now s) \<noteq> Inr True \<and>
     currentState (snd (transitionTo S' rsn md now s)) = currentState s \<and>
     stateHistory (snd (transitionTo S' rsn md now s)) = stateHistory s"
  by (simp add: transitionTo_def canTransitionTo_iff emit_def split: prod.splits sum.splits)

lemma transitionTo_accepted:
  assumes "S' \<in> set (VALID_TRANSITIONS (currentState s))"
  shows "currentState (snd (transitionTo S' rsn md now s)) = S' \<and>
     stateHistory (snd (transitionTo S' rsn md now s)) = stateHistory s @
        [\<lparr>t_from = currentState s, t_to = S', timestamp = now, reason = rsn, metadata = md\<rparr>]"
proof -
  define tr where "tr = \<lparr>t_from = currentState s, t_to = S', timestamp = now, reason = rsn, metadata = md\<rparr>"
  obtain r s1 where ex: "executeTransition tr s = (r, s1)"
    by fastforce
  have h: "stateHistory s1 = stateHistory s @ [tr]" and c: "currentState s1 = S'"
    using executeTransition_history [of tr s] executeTransition_current [of tr s] ex
    by (simp_all add: tr_def)
  show ?thesis
    using assms ex h c
    by (cases r) (simp_all add: transitionTo_def canTransitionTo_iff Let_def emit_def tr_def)
qed

lemma transitionTo_quiet_result:
  assumes "\<forall>c. \<not> throwing s c"
  shows "fst (transitionTo S' rsn md now s) = Inr (S' \<in> set (VALID_TRANSITIONS (currentState s)))"
proof (cases "S' \<in> set (VALID_TRANSITIONS (currentState s))")
  case True
  define tr where "tr = \<lparr>t_from = currentState s, t_to = S', timestamp = now, reason = rsn, metadata = md\<rparr>"
  obtain r s1 where ex: "executeTransition tr s = (r, s1)"
    by fastforce
  have "r = Inr ()"
    using executeTransition_quiet [OF assms, of tr] ex by simp
  then show ?thesis
    using True ex by (simp add: transitionTo_def canTransitionTo_iff Let_def tr_def)
next
  case False
  then show ?thesis
    using assms by (simp add: transitionTo_def canTransitionTo_iff emit_def)
qed

lemma new_manager_fields [simp]:
  "currentState (new_manager a p f) = CREATED"
  "stateHistory (new_manager a p f) = []"
  "throwing (new_manager a p f) = f"
  by (simp_all add: new_manager_def startCheckpointing_def)

lemmas lc_eval = transitionTo_def canTransitionTo_def executeTransition_def emit_def Let_def
      new_manager_def startCheckpointing_def quiet_def createCheckpoint_def getUptime_def
      restoreFromCheckpoint_def getLastCheckpoint_def is_checkpoint_def forceTransitionTo_def
      or_else_def getStatistics_def stopCheckpointing_def

subsection \<open>Validated transitions\<close>

text \<open>
  Claim C1, as amended. \<^verbatim>\<open>transitionTo(S')\<close> in state \<open>S\<close>:
  \<^item> when no subscriber throws while it is notified, the call resolves to \<open>true\<close> if and
    only if \<open>S'\<close> is in the allowed-transitions set of \<open>S\<close> (the table
    \<open>VALID_TRANSITIONS\<close>);
  \<^item> when \<open>S'\<close> is allowed, the call appends exactly one entry (from \<open>S\<close> to \<open>S'\<close>,
    with the given reason and metadata) and sets the current state to \<open>S'\<close>;
  \<^item> when \<open>S'\<close> is not allowed, the call does not resolve to \<open>true\<close>, and the current
    state and the history are unchanged.

  The proviso on subscribers is needed: \<^verbatim>\<open>executeTransition\<close> writes the state and the
  history before it notifies, and \<^verbatim>\<open>transitionTo\<close> catches a throw of the notification
  and resolves to \<open>false\<close> without undoing the write (the
  counterexample below). Subscribers are taken not to call back into the manager.
\<close>

theorem transitionTo_allowed_iff:
  "((\<forall>c. \<not> throwing s c) \<longrightarrow>
      fst (transitionTo S' rsn md now s) = Inr (S' \<in> set (VALID_TRANSITIONS (currentState s))))
   \<and> (S' \<in> set (VALID_TRANSITIONS (currentState s)) \<longrightarrow>
        currentState (snd (transitionTo S' rsn md now s)) = S' \<and>
        stateHistory (snd (transitionTo S' rsn md now s)) = stateHistory s @
          [\<lparr>t_from = currentState s, t_to = S', timestamp = now, reason = rsn, metadata = md\<rparr>])
   \<and> (S' \<notin> set (VALID_TRANSITIONS (currentState s)) \<longrightarrow>
        fst (transitionTo S' rsn md now s) \<noteq> Inr True \<and>
        currentState (snd (transitionTo S' rsn md now s)) = currentState s \<and>
        stateHistory (snd (transitionTo S' rsn md now s)) = stateHistory s)"
  using transitionTo_quiet_result [of s S' rsn md now] transitionTo_accepted [of S' s rsn md now]
    transitionTo_rejected [of S' s rsn md now]
  by blast

text \<open>
  The theorem at a fresh manager without subscribers: \<open>INITIALIZING\<close> is allowed from
  \<open>CREATED\<close>, \<open>RUNNING\<close> is not.
\<close>

theorem transitionTo_allowed_iff_witness:
  "fst (transitionTo INITIALIZING None None 5 (new_manager ''a1'' no_policy quiet)) = Inr True
   \<and> currentState (snd (transitionTo INITIALIZING None None 5 (new_manager ''a1'' no_policy quiet)))
       = INITIALIZING
   \<and> stateHistory (snd (transitionTo INITIALIZING None None 5 (new_manager ''a1'' no_policy quiet)))
       = [\<lparr>t_from = CREATED, t_to = INITIALIZING, timestamp = 5, reason = None, metadata = None\<rparr>]
   \<and> fst (transitionTo RUNNING None None 5 (new_manager ''a1'' no_policy quiet)) = Inr False
   \<and> currentState (snd (transitionTo RUNNING None None 5 (new_manager ''a1'' no_policy quiet)))
       = CREATED
   \<and> stateHistory (snd (transitionTo RUNNING None None 5 (new_manager ''a1'' no_policy quiet))) = []"
  using transitionTo_allowed_iff [of "new_manager ''a1'' no_policy quiet" INITIALIZING None None 5]
    transitionTo_allowed_iff [of "new_manager ''a1'' no_policy quiet" RUNNING None None 5]
  by (simp add: quiet_def)

text \<open>
  Claim C1 as stated fails when a subscriber of \<^verbatim>\<open>stateChanged\<close> throws: the target
  \<open>INITIALIZING\<close> is allowed from \<open>CREATED\<close>, the call resolves to \<open>false\<close>, and the
  current state and the history have changed all the same.
\<close>

theorem transitionTo_false_after_mutation:
  "INITIALIZING \<in> set (VALID_TRANSITIONS (currentState (new_manager ''a1'' no_policy (\<lambda>c. c = ''stateChanged''))))
   \<and> fst (transitionTo INITIALIZING None None 5 (new_manager ''a1'' no_policy (\<lambda>c. c = ''stateChanged'')))
       = Inr False
   \<and> currentState (snd (transitionTo INITIALIZING None None 5
         (new_manager ''a1'' no_policy (\<lambda>c. c = ''stateChanged'')))) = INITIALIZING
   \<and> stateHistory (snd (transitionTo INITIALIZING None None 5
         (new_manager ''a1'' no_policy (\<lambda>c. c = ''stateChanged'')))) =
       [\<lparr>t_from = CREATED, t_to = INITIALIZING, timestamp = 5, reason = None, metadata = None\<rparr>]
   \<and> currentState (new_manager ''a1'' no_policy (\<lambda>c. c = ''stateChanged'')) = CREATED
   \<and> stateHistory (new_manager ''a1'' no_policy (\<lambda>c. c = ''stateChanged'')) = []"
  by (simp add: transitionTo_def canTransitionTo_def executeTransition_def emit_def Let_def
      new_manager_def startCheckpointing_def)

subsection \<open>The history under each operation\<close>

text \<open>
  Every operation but a restore from the last checkpoint keeps the history it finds as a
  prefix of the history it leaves.
\<close>

lemma transitionTo_history_prefix:
  "prefix (stateHistory s) (stateHistory (snd (transitionTo S' rsn md now s)))"
  using transitionTo_accepted [of S' s rsn md now] transitionTo_rejected [of S' s rsn md now]
  by (cases "S' \<in> set (VALID_TRANSITIONS (currentState s))") simp_all

lemma forceTransitionTo_history:
  "stateHistory (snd (forceTransitionTo S' rsn md now s)) = stateHistory s @
     [\<lparr>t_from = currentState s, t_to = S', timestamp = now,
       reason = Some (''FORCED: '' @ rsn),
       metadata = Some (AList.update ''forced'' (MBool True) (or_else md []))\<rparr>]"
  by (simp add: forceTransitionTo_def executeTransition_history)

lemma transitionTo_history_prefixD:
  "transitionTo S' rsn md now s = (r, s') \<Longrightarrow> prefix (stateHistory s) (stateHistory s')"
  using transitionTo_history_prefix [of s S' rsn md now] by simp

lemma handleError_history_prefix:
  "prefix (stateHistory s) (stateHistory (snd (handleError msg now s)))"
  by (auto simp add: handleError_def Let_def split: prod.splits sum.splits
      dest!: transitionTo_history_prefixD)

lemma gracefulShutdown_history_prefix:
  "prefix (stateHistory s) (stateHistory (snd (gracefulShutdown rsn now s)))"
  by (auto simp add: gracefulShutdown_def split: prod.splits sum.splits
      dest!: transitionTo_history_prefixD)

lemma createCheckpoint_history:
  "\<exists>c. stateHistory (snd (createCheckpoint now s)) = stateHistory s @ [c] \<and> t_to c = currentState s"
  by (simp add: createCheckpoint_def Let_def emit_def)

lemma createCheckpoint_current [simp]:
  "currentState (snd (createCheckpoint now s)) = currentState s"
  by (simp add: createCheckpoint_def Let_def emit_def)

lemma checkpointTick_history_prefix:
  "prefix (stateHistory s) (stateHistory (snd (checkpointTick now s)))"
  using createCheckpoint_history [of now s]
  by (auto simp add: checkpointTick_def split: prod.splits sum.splits)

lemma restoreFromCheckpoint_given_history:
  "prefix (stateHistory s) (stateHistory (snd (restoreFromCheckpoint (Some c) now s)))"
  using forceTransitionTo_history [of "t_to c" "''Restored from checkpoint''" "Some [(''restoredFrom'', MNum (timestamp c))]" now s]
  by (auto simp add: restoreFromCheckpoint_def split: prod.splits sum.splits)

lemma lc_step_history_prefix:
  "op \<noteq> OpRestoreFromCheckpoint None \<Longrightarrow>
     prefix (stateHistory s) (stateHistory (lc_step now op s))"
proof (cases op)
  case (OpRestoreFromCheckpoint c)
  assume "op \<noteq> OpRestoreFromCheckpoint None"
  with OpRestoreFromCheckpoint obtain c' where "c = Some c'" by (cases c) auto
  with OpRestoreFromCheckpoint show ?thesis
    by (simp add: restoreFromCheckpoint_given_history)
qed (use transitionTo_history_prefix handleError_history_prefix gracefulShutdown_history_prefix
      checkpointTick_history_prefix createCheckpoint_history [of now s] forceTransitionTo_history in
     \<open>auto simp add: updatePolicy_def Let_def destroy_def\<close>)

text \<open>
  Claim C9 (the history is append-only and ordered under every operation) fails for
  \<^verbatim>\<open>restoreFromCheckpoint()\<close> called without a checkpoint: \<^verbatim>\<open>getLastCheckpoint\<close>
  reverses \<^verbatim>\<open>this.stateHistory\<close> in place before it searches it. After a transition
  to \<open>INITIALIZING\<close> at time 1 and a checkpoint at time 2, the restore at time 3 leaves
  the checkpoint first, the transition second and the forced transition last: the
  earlier history is not a prefix of the later one.
\<close>

theorem restoreFromCheckpoint_reverses_history:
  "stateHistory (lc_run [(1, OpTransitionTo INITIALIZING None None), (2, OpCreateCheckpoint)]
       (new_manager ''a1'' no_policy quiet)) =
     [\<lparr>t_from = CREATED, t_to = INITIALIZING, timestamp = 1, reason = None, metadata = None\<rparr>,
      \<lparr>t_from = INITIALIZING, t_to = INITIALIZING, timestamp = 2, reason = Some ''Checkpoint'',
        metadata = Some [(''checkpoint'', MBool True), (''retryCount'', MNum 0), (''uptime'', MNum 0)]\<rparr>]
   \<and> stateHistory (lc_run [(1, OpTransitionTo INITIALIZING None None), (2, OpCreateCheckpoint),
         (3, OpRestoreFromCheckpoint None)] (new_manager ''a1'' no_policy quiet)) =
     [\<lparr>t_from = INITIALIZING, t_to = INITIALIZING, timestamp = 2, reason = Some ''Checkpoint'',
        metadata = Some [(''checkpoint'', MBool True), (''retryCount'', MNum 0), (''uptime'', MNum 0)]\<rparr>,
      \<lparr>t_from = CREATED, t_to = INITIALIZING, timestamp = 1, reason = None, metadata = None\<rparr>,
      \<lparr>t_from = INITIALIZING, t_to = INITIALIZING, timestamp = 3,
        reason = Some ''FORCED: Restored from checkpoint'',
        metadata = Some [(''restoredFrom'', MNum 2), (''forced'', MBool True)]\<rparr>]
   \<and> \<not> prefix
        (stateHistory (lc_run [(1, OpTransitionTo INITIALIZING None None), (2, OpCreateCheckpoint)]
           (new_manager ''a1'' no_policy quiet)))
        (stateHistory (lc_run [(1, OpTransitionTo INITIALIZING None None), (2, OpCreateCheckpoint),
           (3, OpRestoreFromCheckpoint None)] (new_manager ''a1'' no_policy quiet)))"
  by (simp add: lc_eval)

subsection \<open>Uptime\<close>

text \<open>
  An allowed target is never \<open>CREATED\<close>, so validated transitions add no entry with
  target \<open>CREATED\<close>; the steps of an admissible run add none either.
\<close>

lemma valid_target_not_created: "S' \<in> set (VALID_TRANSITIONS S) \<Longrightarrow> S' \<noteq> CREATED"
  by (cases S) auto

lemma transitionTo_no_created:
  assumes "transitionTo S' rsn md now s = (r, s')" and "no_created_entry s"
  shows "no_created_entry s'"
proof (cases "S' \<in> set (VALID_TRANSITIONS (currentState s))")
  case True
  then show ?thesis
    using assms transitionTo_accepted [OF True, of rsn md now] valid_target_not_created [OF True]
    by (simp add: no_created_entry_def)
next
  case False
  then show ?thesis
    using assms transitionTo_rejected [OF False, of rsn md now]
    by (simp add: no_created_entry_def)
qed

lemma no_created_entry_retryCount [simp]:
  "no_created_entry (s\<lparr>retryCount := n\<rparr>) = no_created_entry s"
  "no_created_entry (s\<lparr>retryTimers := ts\<rparr>) = no_created_entry s"
  "no_created_entry (s\<lparr>forceTimers := ts\<rparr>) = no_created_entry s"
  "no_created_entry (s\<lparr>policy := p\<rparr>) = no_created_entry s"
  "no_created_entry (s\<lparr>throwing := f\<rparr>) = no_created_entry s"
  "no_created_entry (stopCheckpointing s) = no_created_entry s"
  "no_created_entry (snd (emit ev s)) = no_created_entry s"
  by (simp_all add: no_created_entry_def)

lemma handleError_no_created:
  "no_created_entry s \<Longrightarrow> no_created_entry (snd (handleError msg now s))"
  by (auto simp add: handleError_def Let_def split: prod.splits sum.splits
      dest!: transitionTo_no_created)

lemma gracefulShutdown_no_created:
  "no_created_entry s \<Longrightarrow> no_created_entry (snd (gracefulShutdown rsn now s))"
  by (auto simp add: gracefulShutdown_def split: prod.splits sum.splits
      dest!: transitionTo_no_created)

lemma forceTransitionTo_no_created:
  "no_created_entry s \<Longrightarrow> S' \<noteq> CREATED \<Longrightarrow>
     no_created_entry (snd (forceTransitionTo S' rsn md now s))"
  by (simp add: no_created_entry_def forceTransitionTo_history)

lemma createCheckpoint_no_created:
  "no_created_entry s \<Longrightarrow> currentState s \<noteq> CREATED \<Longrightarrow>
     no_created_entry (snd (createCheckpoint now s))"
  using createCheckpoint_history [of now s] by (auto simp add: no_created_entry_def)

lemma checkpointTick_no_created:
  "no_created_entry s \<Longrightarrow> no_created_entry (snd (checkpointTick now s))"
proof -
  assume a: "no_created_entry s"
  show ?thesis
  proof (cases "checkpointTimer s \<and> currentState s = RUNNING")
    case True
    then have "no_created_entry (snd (createCheckpoint now s))"
      using a createCheckpoint_no_created [of s now] by simp
    with True show ?thesis
      by (auto simp add: checkpointTick_def split: prod.splits sum.splits)
  next
    case False
    then show ?thesis using a by (auto simp add: checkpointTick_def)
  qed
qed

lemma restoreFromCheckpoint_no_created:
  assumes "no_created_entry s" and "op_admissible s (OpRestoreFromCheckpoint c)"
  shows "no_created_entry (snd (restoreFromCheckpoint c now s))"
proof (cases c)
  case None
  let ?s1 = "s\<lparr>stateHistory := rev (stateHistory s)\<rparr>"
  have s1: "no_created_entry ?s1"
    using assms(1) by (simp add: no_created_entry_def)
  show ?thesis
  proof (cases "find is_checkpoint (rev (stateHistory s))")
    case N: None
    with None s1 show ?thesis
      by (simp add: restoreFromCheckpoint_def getLastCheckpoint_def Let_def)
  next
    case (Some target)
    then have "target \<in> set (rev (stateHistory s))"
      by (metis find_Some_iff nth_mem)
    then have "target \<in> set (stateHistory s)"
      by simp
    then have "t_to target \<noteq> CREATED"
      using assms(1) by (simp add: no_created_entry_def list_all_iff)
    then have "no_created_entry (snd (forceTransitionTo (t_to target) ''Restored from checkpoint''
         (Some [(''restoredFrom'', MNum (timestamp target))]) now ?s1))"
      using s1 forceTransitionTo_no_created by blast
    with None Some show ?thesis
      by (auto simp add: restoreFromCheckpoint_def getLastCheckpoint_def Let_def
          split: prod.splits sum.splits)
  qed
next
  case (Some cp)
  then have "no_created_entry (snd (forceTransitionTo (t_to cp) ''Restored from checkpoint''
         (Some [(''restoredFrom'', MNum (timestamp cp))]) now s))"
    using assms forceTransitionTo_no_created by simp
  with Some show ?thesis
    by (auto simp add: restoreFromCheckpoint_def Let_def split: prod.splits sum.splits)
qed

lemma lc_step_no_created:
  assumes "no_created_entry s" and "op_admissible s op"
  shows "no_created_entry (lc_step now op s)"
proof (cases op)
  case (OpTransitionTo st rsn md)
  then show ?thesis
    using assms(1) transitionTo_no_created [of st rsn md now s] by (cases "transitionTo st rsn md now s") simp
next
  case (OpRestoreFromCheckpoint c)
  then show ?thesis using assms restoreFromCheckpoint_no_created by simp
qed (use assms handleError_no_created gracefulShutdown_no_created forceTransitionTo_no_created
      createCheckpoint_no_created checkpointTick_no_created in
     \<open>auto simp add: updatePolicy_def Let_def destroy_def\<close>)

lemma lc_run_no_created:
  "no_created_entry s \<Longrightarrow> run_admissible ops s \<Longrightarrow> no_created_entry (lc_run ops s)"
proof (induction ops arbitrary: s)
  case Nil
  then show ?case by simp
next
  case (Cons a ops)
  obtain now op where a: "a = (now, op)" by (cases a)
  show ?case
    using Cons.prems Cons.IH [of "lc_step now op s"] lc_step_no_created [of s op now]
    by (simp add: a)
qed

lemma getUptime_no_created: "no_created_entry s \<Longrightarrow> getUptime now s = 0"
proof -
  assume "no_created_entry s"
  then have "find (\<lambda>t. t_to t = CREATED) (stateHistory s) = None"
    by (simp add: no_created_entry_def find_None_iff list_all_iff)
  then show ?thesis by (simp add: getUptime_def)
qed

text \<open>
  Claim C10, as amended. In every run of a new manager in which \<^verbatim>\<open>forceTransitionTo\<close> is
  never called with target \<open>CREATED\<close>, \<^verbatim>\<open>restoreFromCheckpoint\<close> is never given a
  checkpoint whose target is \<open>CREATED\<close>, and \<^verbatim>\<open>createCheckpoint\<close> is never called
  while the current state is \<open>CREATED\<close>, \<^verbatim>\<open>getUptime()\<close> and
  \<^verbatim>\<open>getStatistics().uptime\<close> return 0: the history never holds an entry whose target
  is \<open>CREATED\<close>.
\<close>

theorem uptime_zero_in_admissible_runs:
  assumes "run_admissible ops (new_manager aid pol subs)"
  shows "getUptime now (lc_run ops (new_manager aid pol subs)) = 0
     \<and> st_uptime (getStatistics now (lc_run ops (new_manager aid pol subs))) = 0"
proof -
  have "no_created_entry (new_manager aid pol subs)"
    by (simp add: no_created_entry_def)
  then have "no_created_entry (lc_run ops (new_manager aid pol subs))"
    using assms lc_run_no_created by blast
  then show ?thesis
    by (simp add: getStatistics_def getUptime_no_created)
qed

text \<open>
  The theorem at a run that starts the agent, takes a checkpoint while \<open>RUNNING\<close> and
  restores it.
\<close>

theorem uptime_zero_in_admissible_runs_witness:
  "run_admissible [(1, OpTransitionTo INITIALIZING None None), (2, OpTransitionTo RUNNING None None),
       (3, OpCreateCheckpoint), (4, OpRestoreFromCheckpoint None)] (new_manager ''a1'' no_policy quiet)
   \<and> getUptime 10 (lc_run [(1, OpTransitionTo INITIALIZING None None),
       (2, OpTransitionTo RUNNING None None), (3, OpCreateCheckpoint),
       (4, OpRestoreFromCheckpoint None)] (new_manager ''a1'' no_policy quiet)) = 0
   \<and> st_uptime (getStatistics 10 (lc_run [(1, OpTransitionTo INITIALIZING None None),
       (2, OpTransitionTo RUNNING None None), (3, OpCreateCheckpoint),
       (4, OpRestoreFromCheckpoint None)] (new_manager ''a1'' no_policy quiet))) = 0"
proof -
  have adm: "run_admissible [(1, OpTransitionTo INITIALIZING None None), (2, OpTransitionTo RUNNING None None),
       (3, OpCreateCheckpoint), (4, OpRestoreFromCheckpoint None)] (new_manager ''a1'' no_policy quiet)"
    by (simp add: lc_eval)
  show ?thesis
    using adm uptime_zero_in_admissible_runs [OF adm, of 10] by blast
qed

text \<open>
  Claim C10 as stated fails without any forced transition: a checkpoint taken by a new
  manager, still in \<open>CREATED\<close>, is an entry with target \<open>CREATED\<close>, and the uptime is
  measured from it.
\<close>

theorem uptime_nonzero_after_initial_checkpoint:
  "getUptime 500 (lc_run [(0, OpCreateCheckpoint)] (new_manager ''a1'' no_policy quiet)) = 500
   \<and> st_uptime (getStatistics 500 (lc_run [(0, OpCreateCheckpoint)]
        (new_manager ''a1'' no_policy quiet))) = 500"
  by (simp add: lc_eval)

section \<open>Properties of the swarm coordinator\<close>

subsection \<open>Maps, notifications and the writes of an assignment\<close>

lemma tbl_modify_compose:
  "(\<And>x. key (g x) = key x) \<Longrightarrow>
     tbl_modify key k f (tbl_modify key k g xs) = tbl_modify key k (\<lambda>x. f (g x)) xs"
  by (simp add: tbl_modify_def)

lemma map_key_tbl_modify:
  "(\<And>x. key (f x) = key x) \<Longrightarrow> map key (tbl_modify key k f xs) = map key xs"
  by (simp add: tbl_modify_def)







lemma sw_emit_fields [simp]:
  "nodes (sw_emit ev s) = nodes s"
  "tasks (sw_emit ev s) = tasks s"
  "proposals (sw_emit ev s) = proposals s"
  "metrics (sw_emit ev s) = metrics s"
  "maxTaskRetries (sw_emit ev s) = maxTaskRetries s"
  "events (sw_emit ev s) = events s @ [ev]"
  by (simp_all add: sw_emit_def)

lemma modify_task_fields [simp]:
  "nodes (modify_task tid f s) = nodes s"
  "tasks (modify_task tid f s) = tbl_modify task_id tid f (tasks s)"
  "proposals (modify_task tid f s) = proposals s"
  "metrics (modify_task tid f s) = metrics s"
  "maxTaskRetries (modify_task tid f s) = maxTaskRetries s"
  "events (modify_task tid f s) = events s"
  by (simp_all add: modify_task_def)

lemma modify_node_fields [simp]:
  "nodes (modify_node nid f s) = tbl_modify node_id nid f (nodes s)"
  "tasks (modify_node nid f s) = tasks s"
  "proposals (modify_node nid f s) = proposals s"
  "metrics (modify_node nid f s) = metrics s"
  "maxTaskRetries (modify_node nid f s) = maxTaskRetries s"
  "events (modify_node nid f s) = events s"
  by (simp_all add: modify_node_def)

lemma updateMetrics_fields [simp]:
  "nodes (updateMetrics e s) = nodes s"
  "tasks (updateMetrics e s) = tasks s"
  "proposals (updateMetrics e s) = proposals s"
  "events (updateMetrics e s) = events s"
  by (simp_all add: updateMetrics_def Let_def)

lemma node_writes_id [simp]:
  "node_id (node_assigned n) = node_id n"
  "node_id (node_succeeded n) = node_id n"
  "node_id (node_failed n) = node_id n"
  by (simp_all add: node_assigned_def node_succeeded_def node_failed_def)

lemma node_after_simps [simp]:
  "node_after None = (\<lambda>n. node_failed (node_assigned n))"
  "node_after (Some res) = (\<lambda>n. node_succeeded (node_assigned n))"
  by (rule ext, simp add: node_after_def)+

lemma task_after_simps [simp]:
  "task_after nid None = (\<lambda>t. t\<lparr>assignedNodes := Some [nid], status := Failed\<rparr>)"
  "task_after nid (Some res) =
     (\<lambda>t. t\<lparr>assignedNodes := Some [nid], status := Completed, result := Some res\<rparr>)"
  by (rule ext, simp add: task_after_def)+


lemma directAssignTask_tasks:
  "tasks (directAssignTask e tid nid s) =
     tbl_modify task_id tid (task_after nid (execute e nid tid)) (tasks s)"
  by (cases "execute e nid tid")
    (simp_all add: directAssignTask_def Let_def tbl_modify_compose)

lemma directAssignTask_proposals [simp]:
  "proposals (directAssignTask e tid nid s) = proposals s"
  by (cases "execute e nid tid") (simp_all add: directAssignTask_def Let_def)

lemma directAssignTask_events:
  "events (directAssignTask e tid nid s) =
     events s @ [TaskAssigned tid nid,
                 (case execute e nid tid of Some res \<Rightarrow> TaskCompleted tid | None \<Rightarrow> TaskFailed tid)]"
  by (cases "execute e nid tid") (simp_all add: directAssignTask_def Let_def)

lemma assignTaskWithConsensus_fields [simp]:
  "nodes (assignTaskWithConsensus e tid c s) = nodes s"
  "tasks (assignTaskWithConsensus e tid c s) = tasks s"
  by (simp_all add: assignTaskWithConsensus_def Let_def)

lemma foldl_invariant:
  "I s \<Longrightarrow> (\<And>a x. I a \<Longrightarrow> I (f a x)) \<Longrightarrow> I (foldl f s xs)"
  by (induction xs arbitrary: s) auto

lemma submitTask_routing:
  "submitTask e tid task s =
     (if length (requirements task) > 2 \<or> priority task \<ge> 7 \<or> length (description task) > 200
      then decomposeTask e tid
             (sw_emit (TaskSubmitted tid)
                (s\<lparr>tasks := tbl_set task_id
                     (task\<lparr>task_id := tid, status := Pending, createdAt := clock e\<rparr>) (tasks s)\<rparr>))
      else assignTask e tid
             (sw_emit (TaskSubmitted tid)
                (s\<lparr>tasks := tbl_set task_id
                     (task\<lparr>task_id := tid, status := Pending, createdAt := clock e\<rparr>) (tasks s)\<rparr>)))"
  by (simp add: submitTask_def Let_def shouldDecomposeTask_def)

text \<open>The definitions unfolded when a run is evaluated on concrete inputs.\<close>

lemmas sw_eval = registerNode_def unregisterNode_def submitTask_def retryTask_def assignTask_def
  directAssignTask_def decomposeTask_def findSuitableNodes_def suitable_def hasCapabilities_def
  calculateNodeScore_def js_sort_def tbl_get_def tbl_delete_def tbl_modify_def modify_task_def
  modify_node_def sw_emit_def updateMetrics_def new_coordinator_def initial_metrics_def
  shouldDecomposeTask_def node_assigned_def node_succeeded_def node_failed_def
  retries_available_def reassignNodeTasks_def reassign_one_def in_flight_on_def or_else_def
  Let_def

lemmas sw_eval2 = sw_eval env_succeed_def env_fail_def example_task_def example_result_def
  two_nodes_def getNodes_def getTasks_def getActiveProposals_def assignTaskWithConsensus_def
  simulateVoting_def resolveConsensus_def execute_decision_def updateConsensusMetrics_def
  List.map_filter_def register_and_assign_def build_subtasks_def new_subtask_def

subsection \<open>Candidate search\<close>

text \<open>
  \<open>includes_str\<close> is the substring test, and the filter of \<^verbatim>\<open>findSuitableNodes\<close> keeps
  exactly the nodes that match every requirement, are loaded below 0.8 and have a
  reputation above 50.
\<close>

lemma starts_with_prefix: "starts_with s p \<longleftrightarrow> prefix p s"
  by (induction s p rule: starts_with.induct) auto

lemma includes_str_sublist: "includes_str cap req \<longleftrightarrow> sublist req cap"
  by (induction cap) (auto simp add: starts_with_prefix sublist_Cons_right)

lemma includes_str_iff: "includes_str cap req \<longleftrightarrow> (\<exists>before after. cap = before @ req @ after)"
  by (simp add: includes_str_sublist sublist_def)

lemma hasCapabilities_iff:
  "hasCapabilities node task \<longleftrightarrow>
     (\<forall>req \<in> set (requirements task). \<exists>cap \<in> set (capabilities node).
         \<exists>before after. cap = before @ req @ after)"
  by (simp add: hasCapabilities_def list_all_iff list_ex_iff includes_str_iff)



lemma js_insert_insort:
  "js_insert (\<lambda>a b. JNum (f b - f a)) x xs = insort_key (\<lambda>n. - f n) x xs"
  by (induction xs) auto

lemma js_sort_sort_key:
  "js_sort (\<lambda>a b. JNum (f b - f a)) xs = sort_key (\<lambda>n. - f n) xs"
  unfolding js_sort_def sort_key_def by (induction xs) (auto simp add: js_insert_insort)

lemma js_insert_nan: "js_insert (\<lambda>a b. JNaN) x xs = x # xs"
  by (cases xs) auto

lemma js_sort_nan: "js_sort (\<lambda>a b. JNaN) xs = xs"
  unfolding js_sort_def by (induction xs) (auto simp add: js_insert_nan)

lemma count_foldl:
  "foldl (\<lambda>acc req. acc + (if P req then 1 else 0)) a reqs = a + real (length (filter P reqs))"
  by (induction reqs arbitrary: a) auto

lemma calculateNodeScore_nonempty:
  "requirements task \<noteq> [] \<Longrightarrow> calculateNodeScore node task = JNum (spec_score node task)"
  by (simp add: calculateNodeScore_def spec_score_def matched_requirements_def count_foldl list_ex_iff Let_def algebra_simps)

lemma calculateNodeScore_empty:
  "requirements task = [] \<Longrightarrow> calculateNodeScore node task = JNaN"
  by (simp add: calculateNodeScore_def)

lemma findSuitableNodes_nonempty:
  assumes "requirements task \<noteq> []"
  shows "findSuitableNodes task ns = sort_key (\<lambda>n. - spec_score n task) (filter (suitable task) ns)"
  using assms by (simp add: findSuitableNodes_def calculateNodeScore_nonempty js_sort_sort_key)

lemma findSuitableNodes_empty:
  assumes "requirements task = []"
  shows "findSuitableNodes task ns = filter (suitable task) ns"
  using assms by (simp add: findSuitableNodes_def calculateNodeScore_empty js_sort_nan)


text \<open>
  For a task with at least one requirement the result is the filtered list ranked by the
  specification's score, highest first, nodes of equal score in registration order. The
  filter compares the real load factor with \<open>8 / 10\<close> (see \<open>node_assigned\<close> for the
  source's doubles at that threshold).
\<close>

lemma findSuitableNodes_ranked:
  assumes "requirements task \<noteq> []"
  shows "mset (findSuitableNodes task ns) = mset (filter (suitable task) ns)
     \<and> sorted_wrt (\<lambda>a b. spec_score a task \<ge> spec_score b task) (findSuitableNodes task ns)
     \<and> (\<forall>v. filter (\<lambda>n. spec_score n task = v) (findSuitableNodes task ns)
            = filter (\<lambda>n. spec_score n task = v) (filter (suitable task) ns))"
proof -
  let ?f = "\<lambda>n. - spec_score n task"
  let ?xs = "filter (suitable task) ns"
  have e: "findSuitableNodes task ns = sort_key ?f ?xs"
    using assms by (rule findSuitableNodes_nonempty)
  have "sorted (map ?f (sort_key ?f ?xs))"
    by (rule sorted_sort_key)
  then have s: "sorted_wrt (\<lambda>a b. spec_score a task \<ge> spec_score b task) (sort_key ?f ?xs)"
    by (simp add: sorted_map sorted_wrt_iff_nth_less)
  have st: "filter (\<lambda>n. spec_score n task = v) (sort_key ?f ?xs) = filter (\<lambda>n. spec_score n task = v) ?xs" for v
    using sort_key_stable [of ?f "- v" ?xs] by simp
  show ?thesis
    using e s st by simp
qed

text \<open>
  Claim C7 (the nodes returned are sorted descending by score, for every task) fails for
  a task without requirements: \<^verbatim>\<open>calculateNodeScore\<close> divides by
  \<^verbatim>\<open>task.requirements.length\<close>, the score of every node is \<open>NaN\<close>, the comparator
  returns \<open>NaN\<close>, and the sort leaves the nodes in registration order. After one failed
  task on \<open>A\<close> the reputations are 95 for \<open>A\<close> and 100 for \<open>B\<close>, both loads 0: a task
  without requirements gets \<open>A\<close> before \<open>B\<close>, a task requiring \<open>x\<close> gets \<open>B\<close> before \<open>A\<close>;
  submitted, the task without requirements is assigned to \<open>A\<close>.
\<close>

theorem no_ranking_without_requirements:
  "map (\<lambda>n. (node_id n, loadFactor n, reputation n))
     (getNodes (sw_run [(env_fail, OpSubmitTask ''T'' (example_task [''x''] 1))] two_nodes)) =
     [(''A'', 0, 95), (''B'', 0, 100)]
   \<and> map node_id (findSuitableNodes (example_task [] 1)
        (getNodes (sw_run [(env_fail, OpSubmitTask ''T'' (example_task [''x''] 1))] two_nodes))) =
     [''A'', ''B'']
   \<and> map node_id (findSuitableNodes (example_task [''x''] 1)
        (getNodes (sw_run [(env_fail, OpSubmitTask ''T'' (example_task [''x''] 1))] two_nodes))) =
     [''B'', ''A'']
   \<and> events (sw_run [(env_fail, OpSubmitTask ''T'' (example_task [''x''] 1)),
                     (env_succeed, OpSubmitTask ''U'' (example_task [] 1))] two_nodes) =
     [NodeRegistered ''A'', NodeRegistered ''B'', TaskSubmitted ''T'', TaskAssigned ''T'' ''A'',
      TaskFailed ''T'', TaskSubmitted ''U'', TaskAssigned ''U'' ''A'', TaskCompleted ''U'']"
  by (simp add: sw_eval2)

subsection \<open>Bounds of load factor and reputation\<close>





lemma nodes_in_bounds_cong: "nodes s' = nodes s \<Longrightarrow> nodes_in_bounds s' = nodes_in_bounds s"
  by (simp add: nodes_in_bounds_def)













lemma checkNodeHealth_nodes [simp]: "nodes (checkNodeHealth e s) = nodes s"
proof -
  have "nodes (foldl (\<lambda>acc node. if clock e - lastSeen node > 60000
                        then sw_emit (NodeStale (node_id node)) acc else acc) a xs) = nodes a"
    for a and xs :: "SwarmNode list"
    by (induction xs arbitrary: a) auto
  then show ?thesis by (simp add: checkNodeHealth_def)
qed

lemma shutdown_nodes [simp]: "nodes (shutdown s) = nodes s"
proof -
  have "nodes (foldl (\<lambda>acc t. sw_emit (TaskCancelled (task_id t))
                                 (modify_task (task_id t) (\<lambda>x. x\<lparr>status := Failed\<rparr>) acc)) a xs) = nodes a"
    for a and xs :: "SwarmTask list"
    by (induction xs arbitrary: a) auto
  then show ?thesis by (simp add: shutdown_def Let_def)
qed







lemma loadFactor_after:
  "loadFactor (node_after r n) = max 0 (min 1 (loadFactor n + 1 / 10) - 1 / 10)"
  by (cases r) (simp_all add: node_assigned_def node_succeeded_def node_failed_def)







subsection \<open>Retries\<close>

text \<open>
  After a direct assignment the task's \<^verbatim>\<open>assignedNodes\<close> is the one node of that
  assignment, whatever it was before.
\<close>

lemma directAssignTask_overwrites:
  "list_all (\<lambda>t. task_id t = tid \<longrightarrow> assignedNodes t = Some [nid])
     (tasks (directAssignTask e tid nid s))"
proof -
  have h: "assignedNodes (task_after nid r t) = Some [nid]" for r t
    by (cases r) simp_all
  have "list_all (\<lambda>t. task_id t = tid \<longrightarrow> assignedNodes t = Some [nid])
      (tbl_modify task_id tid (task_after nid r) ts)" for r ts
    by (induction ts) (simp_all add: tbl_modify_def h del: task_after_simps)
  then show ?thesis
    by (simp only: directAssignTask_tasks)
qed



text \<open>
  Claim C3 (a retry never assigns the task to a node that was assigned it earlier) fails:
  \<^verbatim>\<open>directAssignTask\<close> overwrites \<^verbatim>\<open>task.assignedNodes\<close> with the one node of the
  current attempt, so \<^verbatim>\<open>retryTask\<close> excludes only the node of the last attempt. With
  two capable nodes and an agent that rejects every task, the task goes to \<open>A\<close>, then to
  \<open>B\<close>, then to \<open>A\<close> again.
\<close>

theorem retry_returns_to_earlier_node:
  "events (sw_run [(env_fail, OpSubmitTask ''T'' (example_task [''x''] 1)),
                   (env_fail, OpRetryTask ''T''), (env_fail, OpRetryTask ''T'')] two_nodes) =
     [NodeRegistered ''A'', NodeRegistered ''B'', TaskSubmitted ''T'',
      TaskAssigned ''T'' ''A'', TaskFailed ''T'',
      TaskAssigned ''T'' ''B'', TaskFailed ''T'',
      TaskAssigned ''T'' ''A'', TaskFailed ''T'']"
  by (simp add: sw_eval2)

text \<open>
  Claim C4 (at most \<^verbatim>\<open>maxTaskRetries\<close> assignment attempts, then the failure is
  terminal) fails for the same reason: the length of \<^verbatim>\<open>task.assignedNodes\<close> is 1
  after every attempt, the test \<^verbatim>\<open>length < maxTaskRetries\<close> holds every time, and
  every failure schedules a retry. With the budget at 3, the task below is assigned four
  times and a fourth retry is scheduled.
\<close>

theorem retries_exceed_budget:
  "filter (\<lambda>ev. ev = TaskAssigned ''T'' ''A'' \<or> ev = TaskAssigned ''T'' ''B'')
     (events (sw_run [(env_fail, OpSubmitTask ''T'' (example_task [''x''] 1)),
                   (env_fail, OpRetryTask ''T''), (env_fail, OpRetryTask ''T''),
                   (env_fail, OpRetryTask ''T'')] two_nodes)) =
     [TaskAssigned ''T'' ''A'', TaskAssigned ''T'' ''B'', TaskAssigned ''T'' ''A'', TaskAssigned ''T'' ''B'']
   \<and> maxTaskRetries (sw_run [(env_fail, OpSubmitTask ''T'' (example_task [''x''] 1)),
                   (env_fail, OpRetryTask ''T''), (env_fail, OpRetryTask ''T''),
                   (env_fail, OpRetryTask ''T'')] two_nodes) = 3
   \<and> timers (sw_run [(env_fail, OpSubmitTask ''T'' (example_task [''x''] 1)),
                   (env_fail, OpRetryTask ''T''), (env_fail, OpRetryTask ''T''),
                   (env_fail, OpRetryTask ''T'')] two_nodes) =
       [(5000, RetryTimer ''T''), (5000, RetryTimer ''T''), (5000, RetryTimer ''T''),
        (5000, RetryTimer ''T'')]
   \<and> map (\<lambda>t. (task_id t, status t, assignedNodes t))
       (getTasks (sw_run [(env_fail, OpSubmitTask ''T'' (example_task [''x''] 1)),
                   (env_fail, OpRetryTask ''T''), (env_fail, OpRetryTask ''T''),
                   (env_fail, OpRetryTask ''T'')] two_nodes)) = [(''T'', Failed, Some [''B''])]"
  by (simp add: sw_eval2)

subsection \<open>Consensus resolution\<close>

lemma execute_decision_proposals [simp]:
  "proposals (execute_decision e p s) = proposals s"
  by (simp add: execute_decision_def Let_def split: option.splits list.splits)





text \<open>
  Every call keeps \<open>rounds_cover\<close>: a round is started when a proposal enters the map,
  and a resolution takes the proposal out of it.
\<close>

lemma rounds_cover_same:
  assumes "rounds_cover s" and "proposals s' = proposals s"
    and "\<And>pid. filter (is_resolved pid) (events s') = filter (is_resolved pid) (events s)"
    and "\<And>pid. filter (is_started pid) (events s') = filter (is_started pid) (events s)"
  shows "rounds_cover s'"
  using assms by (simp add: rounds_cover_def resolutions_def rounds_def open_round_def)

lemma directAssignTask_cover:
  "rounds_cover s \<Longrightarrow> rounds_cover (directAssignTask e tid nid s)"
  by (erule rounds_cover_same) (simp_all add: directAssignTask_events split: option.splits)

















lemma execute_decision_cover:
  "rounds_cover s \<Longrightarrow> rounds_cover (execute_decision e p s)"
  by (simp add: execute_decision_def Let_def directAssignTask_cover split: option.splits list.splits)












subsection \<open>Decomposition\<close>

lemma task_after_shape [simp]: "task_shape (task_after nid r t) = task_shape t"
  by (cases r) (simp_all add: task_shape_def)

lemma map_shape_tbl_modify:
  "(\<And>x. task_shape (f x) = task_shape x) \<Longrightarrow>
     map task_shape (tbl_modify task_id k f xs) = map task_shape xs"
  by (simp add: tbl_modify_def)

lemma directAssignTask_shape:
  "map task_shape (tasks (directAssignTask e tid nid s)) = map task_shape (tasks s)"
  by (simp add: directAssignTask_tasks map_shape_tbl_modify)

lemma assignTask_shape:
  "map task_shape (tasks (assignTask e tid s)) = map task_shape (tasks s)"
  by (simp add: assignTask_def Let_def directAssignTask_shape split: option.splits list.splits)













subsection \<open>Unregistration\<close>

lemma task_after_id [simp]: "task_id (task_after c r t) = task_id t"
  by (cases r) simp_all

lemma reset_for_id [simp]: "task_id (reset_for nid t) = task_id t"
  by (simp add: reset_for_def)





lemma unregisterNode_tasks:
  "tasks (unregisterNode e nid s) =
     (case tbl_get node_id nid (nodes s) of None \<Rightarrow> tasks s
      | Some n \<Rightarrow> tasks (reassignNodeTasks e nid s))"
  by (simp add: unregisterNode_def Let_def split: option.splits)


text \<open>
  No call of the coordinator gives two tasks of the map the same id: the task ids are
  distinct in every state reached from a new coordinator.
\<close>

lemma distinct_tbl_set:
  "distinct (map key xs) \<Longrightarrow> distinct (map key (tbl_set key v xs))"
proof (induction xs)
  case Nil
  then show ?case by simp
next
  case (Cons a xs)
  have "key ` set (tbl_set key v xs) \<subseteq> insert (key v) (key ` set xs)"
    by (induction xs) auto
  with Cons show ?case by auto
qed

lemma task_ids_of_shape: "map task_id ts = map fst (map task_shape ts)"
  by (simp add: task_shape_def comp_def)

lemma assignTask_task_ids:
  "map task_id (tasks (assignTask e tid s)) = map task_id (tasks s)"
  by (simp add: task_ids_of_shape assignTask_shape)

lemma modify_task_ids:
  "(\<And>t. task_id (f t) = task_id t) \<Longrightarrow>
     map task_id (tasks (modify_task tid f s)) = map task_id (tasks s)"
  by (simp add: map_key_tbl_modify)

lemma directAssignTask_task_ids:
  "map task_id (tasks (directAssignTask e tid nid s)) = map task_id (tasks s)"
  by (simp add: task_ids_of_shape directAssignTask_shape)

lemma task_ids_distinct_cong:
  "map task_id (tasks s') = map task_id (tasks s) \<Longrightarrow> task_ids_distinct s' = task_ids_distinct s"
  by (simp add: task_ids_distinct_def)

lemma register_and_assign_distinct:
  "task_ids_distinct s \<Longrightarrow> task_ids_distinct (register_and_assign e s sub)"
  by (simp add: task_ids_distinct_def register_and_assign_def assignTask_task_ids distinct_tbl_set)

lemma decomposeTask_distinct:
  assumes "task_ids_distinct s"
  shows "task_ids_distinct (decomposeTask e tid s)"
proof (cases "tbl_get task_id tid (tasks s)")
  case None
  with assms show ?thesis by (simp add: decomposeTask_def)
next
  case (Some task)
  have m: "task_ids_distinct (modify_task tid (\<lambda>t. t\<lparr>subtasks := v\<rparr>) s)" for v
    using assms by (simp add: task_ids_distinct_def map_key_tbl_modify)
  have f: "task_ids_distinct (foldl (register_and_assign e)
       (modify_task tid (\<lambda>t. t\<lparr>subtasks := v\<rparr>) s) subs)" for v subs
    using m register_and_assign_distinct by (rule foldl_invariant)
  have a: "task_ids_distinct (assignTask e tid s)"
    using assms by (simp add: task_ids_distinct_def assignTask_task_ids)
  show ?thesis
    using Some f a by (simp add: decomposeTask_def Let_def)
qed

lemma submitTask_distinct:
  assumes "task_ids_distinct s"
  shows "task_ids_distinct (submitTask e tid task s)"
proof -
  let ?s2 = "sw_emit (TaskSubmitted tid)
     (s\<lparr>tasks := tbl_set task_id (task\<lparr>task_id := tid, status := Pending, createdAt := clock e\<rparr>) (tasks s)\<rparr>)"
  have s2: "task_ids_distinct ?s2"
    using assms by (simp add: task_ids_distinct_def distinct_tbl_set)
  then have "task_ids_distinct (assignTask e tid ?s2)"
    by (simp add: task_ids_distinct_def assignTask_task_ids)
  then show ?thesis
    using decomposeTask_distinct [OF s2, of e tid]
    by (simp add: submitTask_routing)
qed

lemma retryTask_task_ids:
  "map task_id (tasks (retryTask e tid s)) = map task_id (tasks s)"
  by (simp add: retryTask_def Let_def directAssignTask_task_ids map_key_tbl_modify
      split: option.splits list.splits)

lemma reassignNodeTasks_task_ids:
  "map task_id (tasks (reassignNodeTasks e nid s)) = map task_id (tasks s)"
proof -
  have "map task_id (tasks (foldl (reassign_one e nid) a ids)) = map task_id (tasks a)" for a ids
    by (induction ids arbitrary: a)
      (simp_all add: reassign_one_def assignTask_task_ids map_key_tbl_modify)
  then show ?thesis
    by (simp add: reassignNodeTasks_def Let_def)
qed

lemma unregisterNode_task_ids:
  "map task_id (tasks (unregisterNode e nid s)) = map task_id (tasks s)"
  by (simp add: unregisterNode_tasks reassignNodeTasks_task_ids split: option.splits)

lemma execute_decision_task_ids:
  "map task_id (tasks (execute_decision e p s)) = map task_id (tasks s)"
  by (simp add: execute_decision_def Let_def directAssignTask_task_ids split: option.splits list.splits)

lemma resolveConsensus_task_ids:
  "map task_id (tasks (resolveConsensus e pid s)) = map task_id (tasks s)"
  by (cases "tbl_get proposal_id pid (proposals s)")
    (simp_all add: resolveConsensus_def Let_def updateConsensusMetrics_def execute_decision_task_ids)

lemma handleAgentStateChange_task_ids:
  "map task_id (tasks (handleAgentStateChange e nid st s)) = map task_id (tasks s)"
  by (simp add: handleAgentStateChange_def Let_def reassignNodeTasks_task_ids split: option.splits)

lemma checkNodeHealth_tasks [simp]: "tasks (checkNodeHealth e s) = tasks s"
proof -
  have "tasks (foldl (\<lambda>acc node. if clock e - lastSeen node > 60000
                        then sw_emit (NodeStale (node_id node)) acc else acc) a xs) = tasks a"
    for a and xs :: "SwarmNode list"
    by (induction xs arbitrary: a) auto
  then show ?thesis by (simp add: checkNodeHealth_def)
qed

lemma shutdown_task_ids: "map task_id (tasks (shutdown s)) = map task_id (tasks s)"
proof -
  have "map task_id (tasks (foldl (\<lambda>acc t. sw_emit (TaskCancelled (task_id t))
            (modify_task (task_id t) (\<lambda>x. x\<lparr>status := Failed\<rparr>) acc)) a xs)) = map task_id (tasks a)"
    for a and xs :: "SwarmTask list"
    by (induction xs arbitrary: a) (simp_all add: map_key_tbl_modify)
  then show ?thesis by (simp add: shutdown_def Let_def)
qed

lemma sw_step_distinct:
  "task_ids_distinct s \<Longrightarrow> task_ids_distinct (sw_step e op s)"
proof (cases op)
  case (OpSubmitTask tid task)
  assume "task_ids_distinct s"
  with OpSubmitTask show ?thesis by (simp add: submitTask_distinct)
next
  case (OpRegisterNode nid caps)
  assume "task_ids_distinct s"
  with OpRegisterNode show ?thesis
    by (simp add: task_ids_distinct_def registerNode_def Let_def)
qed (simp_all add: task_ids_distinct_def unregisterNode_task_ids retryTask_task_ids
      resolveConsensus_task_ids handleAgentStateChange_task_ids shutdown_task_ids
      simulateVoting_def heartbeat_def)

lemma sw_run_distinct:
  "task_ids_distinct s \<Longrightarrow> task_ids_distinct (sw_run ops s)"
  by (induction ops arbitrary: s) (auto simp add: sw_step_distinct)

lemma reachable_task_ids_distinct:
  "distinct (map task_id (getTasks (sw_run ops new_coordinator)))"
proof -
  have "task_ids_distinct new_coordinator"
    by (simp add: task_ids_distinct_def new_coordinator_def)
  then have "task_ids_distinct (sw_run ops new_coordinator)"
    by (rule sw_run_distinct)
  then show ?thesis
    by (simp add: task_ids_distinct_def getTasks_def)
qed

text \<open>
  The two halves of \<^verbatim>\<open>directAssignTask\<close>. The continuation writes the status and the
  result of its task and the load and reputation of its node, and never
  \<^verbatim>\<open>assignedNodes\<close>; every task with the given id is in flight on the node once the
  first half has run.
\<close>

lemma directAssignTask_split:
  "directAssignTask e tid nid s =
     settle_execution (execute e nid tid) tid nid (begin_execution tid nid s)"
  by (simp add: directAssignTask_def begin_execution_def settle_execution_def Let_def
      split: option.splits)


lemma submitTask_task_submitted:
  "submitTask e tid task s =
     (if shouldDecomposeTask (task\<lparr>task_id := tid, status := Pending, createdAt := clock e\<rparr>)
      then decomposeTask e tid (task_submitted e tid task s)
      else assignTask e tid (task_submitted e tid task s))"
  by (simp add: submitTask_def task_submitted_def Let_def)

lemma in_set_tbl_modifyD:
  "x \<in> set (tbl_modify key k f xs) \<Longrightarrow>
     (x \<in> set xs \<and> key x \<noteq> k) \<or> (\<exists>y \<in> set xs. key y = k \<and> x = f y)"
  by (auto simp add: tbl_modify_def split: if_splits)

lemma begin_execution_tasks:
  "tasks (begin_execution tid nid s) =
     tbl_modify task_id tid (\<lambda>t. t\<lparr>status := Executing, assignedNodes := Some [nid]\<rparr>) (tasks s)"
  by (simp add: begin_execution_def Let_def tbl_modify_def)

lemma begin_execution_in_flight:
  assumes "t \<in> set (tasks (begin_execution tid nid s))" and "task_id t = tid"
  shows "in_flight_on nid t"
proof -
  from assms(1) have "(t \<in> set (tasks s) \<and> task_id t \<noteq> tid)
      \<or> (\<exists>y \<in> set (tasks s). task_id y = tid
            \<and> t = y\<lparr>status := Executing, assignedNodes := Some [nid]\<rparr>)"
    unfolding begin_execution_tasks by (rule in_set_tbl_modifyD)
  with assms(2) obtain y where "t = y\<lparr>status := Executing, assignedNodes := Some [nid]\<rparr>"
    by blast
  then show ?thesis
    by (simp add: in_flight_on_def)
qed

text \<open>
  One pass of a task through the assignment policy either changes no task and no node
  and announces no assignment, or is a direct assignment to a node that the candidate
  filter accepts for the task.
\<close>

lemma suitable_reset_for [simp]: "suitable (reset_for nid t) n = suitable t n"
  by (simp add: suitable_def hasCapabilities_def reset_for_def)

lemma suitable_task_after [simp]: "suitable (task_after c r t) n = suitable t n"
  by (cases r) (simp_all add: suitable_def hasCapabilities_def)

lemma references_reset_for [simp]: "\<not> references nid (reset_for nid t)"
  by (simp add: references_def reset_for_def split: option.splits)

lemma references_task_after [simp]: "references nid (task_after c r t) \<longleftrightarrow> c = nid"
  by (cases r) (auto simp add: references_def)




lemma node_after_id [simp]: "node_id (node_after r n) = node_id n"
  by (cases r) simp_all




lemma on_registered_reset_for [simp]: "on_registered ns (reset_for nid t)"
  by (simp add: on_registered_def reset_for_def)














text \<open>
  The theorem at two states, each the point where a \<^verbatim>\<open>submitTask\<close> call awaits the
  execution of \<open>T1\<close> on \<open>A\<close>, after \<open>A\<close> has completed \<open>T2\<close>. In the first, removing \<open>A\<close>
  dispatches \<open>T1\<close> to \<open>B\<close>, the better candidate since \<open>A\<close> carries the load of \<open>T1\<close>; no
  assignment to \<open>A\<close> is announced and \<open>T1\<close> references \<open>B\<close> only. In the second, \<open>A\<close> has
  registered again without the capability \<open>T1\<close> requires, so the filter rejects it.
  \<open>T2\<close> is left untouched in both.
\<close>

lemmas sw_eval3 = sw_eval2 begin_execution_def settle_execution_def task_submitted_def
  one_served_def suspended_state_def changed_state_def lone_suspended_def

lemma suspended_state_reached:
  "submitTask env_succeed ''T1'' (example_task [''x''] 1) one_served =
     settle_execution (Some (example_result ''A'' ''T1'')) ''T1'' ''A'' suspended_state"
  by (simp add: sw_eval3)




text \<open>
  The case that the amended claim leaves out. The node is still in the map while its
  tasks are reassigned, so the policy may choose the node that is being removed: with
  \<open>A\<close> the only node, \<open>T1\<close> is reset, handed back to \<open>A\<close> and completed there, and
  references \<open>A\<close> once \<open>A\<close> is gone. The reset filters the id out of \<^verbatim>\<open>assignedNodes\<close>
  just before, so this outcome is not the intended one.
\<close>

lemma lone_suspended_reached:
  "submitTask env_succeed ''T1'' (example_task [''x''] 1)
       (sw_run [(env_succeed, OpRegisterNode ''A'' [''x''])] new_coordinator) =
     settle_execution (Some (example_result ''A'' ''T1'')) ''T1'' ''A'' lone_suspended"
  by (simp add: sw_eval3)

lemma unregisterNode_hands_back:
  "map (\<lambda>t. (task_id t, status t, assignedNodes t)) (getTasks lone_suspended) =
     [(''T1'', Executing, Some [''A''])]
   \<and> map (\<lambda>t. (task_id t, status t, assignedNodes t))
       (getTasks (unregisterNode env_succeed ''A'' lone_suspended)) =
     [(''T1'', Completed, Some [''A''])]
   \<and> getNodes (unregisterNode env_succeed ''A'' lone_suspended) = []
   \<and> handed_back env_succeed ''A'' lone_suspended ''T1''"
  by (simp add: sw_eval3 handed_back_def)



end
